theory Spec2Isabelle
  imports Complex_Main "HOL-Library.Multiset"
begin

section \<open>Python exceptions as values\<close>

text \<open>
  Every \<open>raise\<close>, failed \<open>assert\<close> and library error of the Python source is a value
  \<open>Inl e\<close> of a sum type; a normal return is \<open>Inr v\<close>. The string is the name or the
  message the exception carries.
\<close>

datatype py_error =
    TypeError string
  | AttributeError string
  | AssertionError string
  | RuntimeError string
  | ValueError string
  | ZeroDivisionError
  | IndexError string
  | OSError string

definition and_then :: "py_error + 'a \<Rightarrow> ('a \<Rightarrow> py_error + 'b) \<Rightarrow> py_error + 'b" where
  "and_then m f = (case m of Inl e \<Rightarrow> Inl e | Inr x \<Rightarrow> f x)"

text \<open>Running a list of computations in order, stopping at the first exception.\<close>

fun sequence :: "(py_error + 'a) list \<Rightarrow> py_error + 'a list" where
  "sequence [] = Inr []"
| "sequence (m # ms) = and_then m (\<lambda>x. and_then (sequence ms) (\<lambda>xs. Inr (x # xs)))"

definition traverse :: "('a \<Rightarrow> py_error + 'b) \<Rightarrow> 'a list \<Rightarrow> py_error + 'b list" where
  "traverse f xs = sequence (map f xs)"

section \<open>Model construction: \<open>train.py\<close>, \<open>_init_models\<close> and \<open>VideoEncoder.__init__\<close>\<close>

text \<open>
  A Python object is its attribute dictionary. Reading an attribute that was never
  assigned raises \<open>AttributeError\<close>; assigning one updates the dictionary.
\<close>

type_synonym 'v py_object = "string \<rightharpoonup> 'v"

definition getattr :: "'v py_object \<Rightarrow> string \<Rightarrow> py_error + 'v" where
  "getattr obj name = (case obj name of None \<Rightarrow> Inl (AttributeError name) | Some v \<Rightarrow> Inr v)"

definition setattr :: "'v py_object \<Rightarrow> string \<Rightarrow> 'v \<Rightarrow> 'v py_object" where
  "setattr obj name v = obj(name \<mapsto> v)"

text \<open>
  The names bound at the top level of \<open>better_model.py\<close>: its imports (lines 1-4), the two
  dictionaries (lines 6-11) and the two classes (lines 13 and 77).
\<close>

definition better_model_names :: "string list" where
  "better_model_names =
     [''masked_softmax'', ''sort_batch_by_length'', ''torch'', ''nn'', ''F'',
      ''supported_rnns'', ''supported_rnns_inv'', ''VideoEncoder'', ''CharDecoder'']"

definition module_getattr :: "string list \<Rightarrow> string \<Rightarrow> py_error + string" where
  "module_getattr names name =
     (if name \<in> set names then Inr name else Inl (AttributeError name))"

text \<open>
  A \<open>def\<close>'s parameter list after \<open>self\<close>: the parameter names in order, and how many of
  them (the leading ones) have no default.
\<close>

record signature =
  sig_params :: "string list"
  sig_required :: nat

definition VideoEncoder_signature :: signature where
  "VideoEncoder_signature =
     \<lparr> sig_params = [''frame_dim'', ''hidden_size'', ''rnn_type'', ''num_layers'',
                      ''bidirectional'', ''rnn_dropout''],
       sig_required = 2 \<rparr>"

definition CharDecoder_signature :: signature where
  "CharDecoder_signature =
     \<lparr> sig_params = [''encoder'', ''char_dim'', ''output_size'', ''char_padding_idx'',
                      ''rnn_dropout''],
       sig_required = 4 \<rparr>"

text \<open>
  Python's argument binding for a function with neither \<open>*args\<close> nor \<open>**kwargs\<close>: the
  keywords are taken in order, and the first one that names no parameter, or a parameter
  a positional argument already filled, raises \<open>TypeError\<close>; then too many positional
  arguments and a parameter without a default that got no value raise \<open>TypeError\<close>.
\<close>

fun bind_keywords :: "string list \<Rightarrow> string list \<Rightarrow> string list \<Rightarrow> py_error + unit" where
  "bind_keywords params filled [] = Inr ()"
| "bind_keywords params filled (k # ks) =
     (if k \<notin> set params then Inl (TypeError (''unexpected keyword argument: '' @ k))
      else if k \<in> set filled then Inl (TypeError (''multiple values for argument: '' @ k))
      else bind_keywords params (k # filled) ks)"

definition bind_arguments :: "signature \<Rightarrow> nat \<Rightarrow> string list \<Rightarrow> py_error + unit" where
  "bind_arguments sg npos kws =
     and_then (bind_keywords (sig_params sg) (take npos (sig_params sg)) kws) (\<lambda>_.
       if length (sig_params sg) < npos
       then Inl (TypeError ''too many positional arguments'')
       else (case filter (\<lambda>p. p \<notin> set kws)
                   (drop npos (take (sig_required sg) (sig_params sg))) of
               [] \<Rightarrow> Inr ()
             | p # _ \<Rightarrow> Inl (TypeError (''missing required argument: '' @ p))))"

text \<open>
  \<open>VideoEncoder.__init__\<close>, lines 14-26. \<open>super(VideoEncoder).__init__()\<close> (line 16) builds
  an unbound \<open>super\<close> object and initialises that object, not \<open>self\<close>: it leaves
  \<open>self\<close> as it was. Lines 18-22 assign five attributes; \<open>frame_dim\<close> is not among
  them. Line 24 evaluates the callee \<open>self.rnn_type\<close>, then the arguments from left
  to right, then calls. \<open>make_rnn\<close> stands for calling the recurrent-cell class.
\<close>

definition VideoEncoder_init ::
  "('v \<Rightarrow> 'v list \<Rightarrow> py_error + 'v) \<Rightarrow> 'v py_object \<Rightarrow>
   'v \<Rightarrow> 'v \<Rightarrow> 'v \<Rightarrow> 'v \<Rightarrow> 'v \<Rightarrow> 'v \<Rightarrow> py_error + 'v py_object" where
  "VideoEncoder_init make_rnn self0 frame_dim hidden_size rnn_type num_layers bidirectional
       rnn_dropout =
     (let self1 = setattr self0 ''hidden_size'' hidden_size;
          self2 = setattr self1 ''rnn_type'' rnn_type;
          self3 = setattr self2 ''num_layers'' num_layers;
          self4 = setattr self3 ''bidirectional'' bidirectional;
          self5 = setattr self4 ''rnn_dropout'' rnn_dropout
      in and_then (getattr self5 ''rnn_type'') (\<lambda>cls.
         and_then (getattr self5 ''frame_dim'') (\<lambda>a1.
         and_then (getattr self5 ''hidden_size'') (\<lambda>a2.
         and_then (getattr self5 ''num_layers'') (\<lambda>a3.
         and_then (getattr self5 ''bidirectional'') (\<lambda>a4.
         and_then (getattr self5 ''rnn_dropout'') (\<lambda>a5.
         and_then (make_rnn cls [a1, a2, a3, a4, a5]) (\<lambda>rnn.
           Inr (setattr self5 ''rnn'' rnn)))))))))"

text \<open>
  \<open>_init_models\<close>, \<open>train.py\<close> lines 83-102. Each of the two statements looks the class up
  in the model module, binds the call's arguments to the constructor's parameters and
  runs the constructor on a fresh object. The first call passes two positional arguments
  and seven keywords, the second one positional argument (the encoder) and five keywords.
\<close>

definition encoder_call_keywords :: "string list" where
  "encoder_call_keywords =
     [''rnn_type'', ''num_layers'', ''bidirectional'', ''rnn_dropout'',
      ''enable_ctc'', ''vocab_size'', ''char2idx'']"

definition decoding_step_call_keywords :: "string list" where
  "decoding_step_call_keywords =
     [''char_dim'', ''vocab_size'', ''char2idx'', ''rnn_dropout'', ''attention_type'']"

definition init_models ::
  "('v \<Rightarrow> 'v list \<Rightarrow> py_error + 'v) \<Rightarrow> ('v py_object \<Rightarrow> py_error + 'v py_object) \<Rightarrow>
   'v \<Rightarrow> 'v \<Rightarrow> 'v \<Rightarrow> 'v \<Rightarrow> 'v \<Rightarrow> 'v \<Rightarrow>
   py_error + ('v py_object \<times> 'v py_object)" where
  "init_models make_rnn decoder_init
       frame_dim hidden_size rnn_type num_layers bidirectional rnn_dropout =
     and_then (module_getattr better_model_names ''VideoEncoder'') (\<lambda>_.
     and_then (bind_arguments VideoEncoder_signature 2 encoder_call_keywords) (\<lambda>_.
     and_then (VideoEncoder_init make_rnn Map.empty
                 frame_dim hidden_size rnn_type num_layers bidirectional rnn_dropout) (\<lambda>encoder.
     and_then (module_getattr better_model_names ''CharDecodingStep'') (\<lambda>_.
     and_then (bind_arguments CharDecoder_signature 1 decoding_step_call_keywords) (\<lambda>_.
     and_then (decoder_init encoder) (\<lambda>decoding_step.
       Inr (encoder, decoding_step)))))))"

section \<open>The epoch loop and the end-of-run summary: \<open>train.py\<close>, lines 177-210\<close>

text \<open>
  What one epoch's calls into the training module returned: the validation and test
  character error rates (lines 185 and 195), the average decoder loss and the second
  component of \<open>_train.train\<close>'s result. The latter is a number or a list; only a list
  has an \<open>append\<close> method.
\<close>

datatype loss_value = Number real | ListOf "real list"

record epoch_result =
  val_cer :: real
  test_cer :: real
  avg_decoder_loss :: real
  avg_ctc_loss :: loss_value

record train_stats =
  val_cers :: "real list"
  test_cers :: "real list"
  train_decoder_losses :: "real list"
  train_ctc_losses :: "real list"

definition initial_stats :: train_stats where
  "initial_stats = \<lparr> val_cers = [], test_cers = [], train_decoder_losses = [],
                     train_ctc_losses = [] \<rparr>"

text \<open>
  \<open>x.append(y)\<close>: an \<open>AttributeError\<close> on a number. On a list it mutates the object
  \<open>x\<close>, which line 200 never reads again, so the model returns nothing.
\<close>

definition py_append :: "loss_value \<Rightarrow> loss_value \<Rightarrow> py_error + unit" where
  "py_append x y = (case x of Number _ \<Rightarrow> Inl (AttributeError ''append'') | ListOf _ \<Rightarrow> Inr ())"

text \<open>Lines 197-200, the four statements that end the loop body.\<close>

definition epoch_body :: "train_stats \<Rightarrow> epoch_result \<Rightarrow> py_error + train_stats" where
  "epoch_body st r =
     (let st1 = st\<lparr>val_cers := val_cers st @ [val_cer r]\<rparr>;
          st2 = st1\<lparr>test_cers := test_cers st1 @ [test_cer r]\<rparr>;
          st3 = st2\<lparr>train_decoder_losses := train_decoder_losses st2 @ [avg_decoder_loss r]\<rparr>
      in and_then (py_append (avg_ctc_loss r) (avg_ctc_loss r)) (\<lambda>_. Inr st3))"

fun epoch_loop :: "train_stats \<Rightarrow> epoch_result list \<Rightarrow> py_error + train_stats" where
  "epoch_loop st [] = Inr st"
| "epoch_loop st (r # rs) = and_then (epoch_body st r) (\<lambda>st'. epoch_loop st' rs)"

text \<open>\<open>np.min\<close> of a list: a \<open>ValueError\<close> on the empty list.\<close>

definition np_min :: "real list \<Rightarrow> py_error + real" where
  "np_min xs = (case xs of [] \<Rightarrow> Inl (ValueError ''zero-size array'')
                | x # ys \<Rightarrow> Inr (fold min ys x))"

text \<open>
  The summary, lines 202-209: what the run printed, in order, and the exception that
  ended it, if any. The division of line 204 raises when there was no epoch.
\<close>

datatype report_line =
    TimeLine real real
  | BestValCER real
  | BestTestCER real
  | BestDecoderLoss real
  | BestCTCLoss real

definition summary :: "real \<Rightarrow> nat \<Rightarrow> train_stats \<Rightarrow> report_line list \<times> py_error option" where
  "summary total_time num_epochs st =
     (if num_epochs = 0 then ([], Some ZeroDivisionError)
      else
        (case np_min (val_cers st) of
           Inl e \<Rightarrow> ([TimeLine total_time (total_time / real num_epochs)], Some e)
         | Inr v \<Rightarrow>
        (case np_min (test_cers st) of
           Inl e \<Rightarrow> ([TimeLine total_time (total_time / real num_epochs), BestValCER v], Some e)
         | Inr t \<Rightarrow>
        (case np_min (train_decoder_losses st) of
           Inl e \<Rightarrow> ([TimeLine total_time (total_time / real num_epochs), BestValCER v,
                      BestTestCER t], Some e)
         | Inr d \<Rightarrow>
        (case np_min (train_ctc_losses st) of
           Inl e \<Rightarrow> ([TimeLine total_time (total_time / real num_epochs), BestValCER v,
                      BestTestCER t, BestDecoderLoss d], Some e)
         | Inr c \<Rightarrow> ([TimeLine total_time (total_time / real num_epochs), BestValCER v,
                      BestTestCER t, BestDecoderLoss d, BestCTCLoss c], None))))))"

text \<open>
  Lines 177-209 together: \<open>epochs\<close> holds what the \<open>num_epochs\<close> iterations got from the
  training module, in order.
\<close>

definition train_tail :: "real \<Rightarrow> epoch_result list \<Rightarrow> report_line list \<times> py_error option" where
  "train_tail total_time epochs =
     (case epoch_loop initial_stats epochs of
        Inl e \<Rightarrow> ([], Some e)
      | Inr st \<Rightarrow> summary total_time (length epochs) st)"

section \<open>Vocabulary and dataset split: \<open>train.py\<close>, \<open>_get_datasets\<close>\<close>

text \<open>
  \<open>_labels\<close>, line 28: a list of sixty one-character strings. The third is the double
  quote and the eighth the apostrophe.
\<close>

definition default_labels :: "string list" where
  "default_labels =
     map (\<lambda>c. [c])
       ('' !'' @ [CHR 0x22] @ ''#$%&'' @ [CHR 0x27] @
        ''()*+,-./0123456789:;<>?@[]abcdefghijklmnopqrstuvwxyz'')"

text \<open>
  The vocabulary handed to the datasets: the string built from the label file (line 43)
  or the hardcoded list (line 45).
\<close>

datatype labels_value = LabelString string | LabelList "string list"

datatype log_record = Warning string "string list"

text \<open>
  Lines 41-46. \<open>read_result\<close> is the outcome of the \<open>try\<close> body: opening the file,
  parsing its JSON and joining the characters. The bare \<open>except\<close> catches every
  exception, assigns the hardcoded labels and logs one warning that names the path and
  the labels.
\<close>

definition load_labels :: "string \<Rightarrow> py_error + string \<Rightarrow> labels_value \<times> log_record list" where
  "load_labels labels_path read_result =
     (case read_result of
        Inr s \<Rightarrow> (LabelString s, [])
      | Inl _ \<Rightarrow> (LabelList default_labels, [Warning labels_path default_labels]))"

text \<open>
  Python's \<open>int\<close> of a float truncates towards zero, \<open>round\<close> of a float rounds to the
  nearest integer and a tie to the even one.
\<close>

definition py_int :: "real \<Rightarrow> int" where
  "py_int x = (if 0 \<le> x then \<lfloor>x\<rfloor> else \<lceil>x\<rceil>)"

definition py_round :: "real \<Rightarrow> int" where
  "py_round x =
     (let f = \<lfloor>x\<rfloor>; d = x - of_int f
      in if d < 1 / 2 then f else if 1 / 2 < d then f + 1 else if even f then f else f + 1)"

text \<open>
  A Python float is an IEEE double, and every operation on floats gives the double
  nearest to the exact result, a tie going to the even significand. A double is a
  significand of 53 bits times a power of two: \<open>binade x\<close> is the exponent of the
  largest power of two that is at most \<open>|x|\<close>, and rounding keeps 52 bits below it.
  Overflow and subnormal numbers are left out: the numbers of lines 59-60 are far from
  both. A float literal such as \<open>0.8\<close> is the double nearest to it, and \<open>len(videos)\<close>
  becomes a float before it is multiplied.
\<close>

definition binade :: "real \<Rightarrow> int" where
  "binade x = \<lfloor>log 2 \<bar>x\<bar>\<rfloor>"

definition round_double :: "real \<Rightarrow> real" where
  "round_double x =
     (if x = 0 then 0
      else of_int (py_round (x / 2 powr of_int (binade x - 52))) * 2 powr of_int (binade x - 52))"

definition float_of_nat :: "nat \<Rightarrow> real" where
  "float_of_nat n = round_double (real n)"

definition float_mul :: "real \<Rightarrow> real \<Rightarrow> real" where
  "float_mul x y = round_double (x * y)"

definition float_sub :: "real \<Rightarrow> real \<Rightarrow> real" where
  "float_sub x y = round_double (x - y)"

text \<open>
  A slice \<open>xs[lo:hi]\<close> with step 1: a negative bound counts from the end, every bound is
  clamped to the list, and the slice is empty when it starts at or after its end.
\<close>

definition slice_index :: "nat \<Rightarrow> int \<Rightarrow> nat" where
  "slice_index n i = (if i < 0 then nat (max 0 (int n + i)) else min n (nat i))"

definition slice :: "'a list \<Rightarrow> int option \<Rightarrow> int option \<Rightarrow> 'a list" where
  "slice xs lo hi =
     (let n = length xs;
          a = (case lo of None \<Rightarrow> 0 | Some i \<Rightarrow> slice_index n i);
          b = (case hi of None \<Rightarrow> n | Some j \<Rightarrow> slice_index n j)
      in drop a (take b xs))"

text \<open>
  A dataset is the constructor call that built it: which of the two dataset classes
  (line 63), the video ids, the labels and the threshold. The classes themselves are in
  \<open>src.data.data_loader\<close>.
\<close>

record 'v dataset =
  ds_sentence :: bool
  ds_videos :: "'v list"
  ds_labels :: labels_value
  ds_threshold :: real

text \<open>
  Lines 48-71. \<open>globbed\<close> is what \<open>glob.glob\<close> found, \<open>shuffle\<close> the in-place shuffle
  of the random state (line 54 or 56), \<open>train_split\<close> a double. The result is the log
  and either the exception or the three datasets.
\<close>

definition get_datasets ::
  "('v::linorder list \<Rightarrow> 'v list) \<Rightarrow> string \<Rightarrow> py_error + string \<Rightarrow> 'v list \<Rightarrow>
   real \<Rightarrow> bool \<Rightarrow> real \<Rightarrow>
   log_record list \<times> (py_error + ('v dataset \<times> 'v dataset \<times> 'v dataset))" where
  "get_datasets shuffle labels_path read_result globbed train_split sentence_dataset threshold =
     (let (labels, log) = load_labels labels_path read_result in
      (log,
       if \<not> 0 < length globbed then Inl (AssertionError ''No video ids found'')
       else
         (let videos = shuffle (sort globbed);
              train_size = py_int (float_mul train_split (float_of_nat (length videos)));
              val_test_size =
                py_round (float_mul (float_of_nat (length videos)) (float_sub 1 train_split))
          in if train_size + val_test_size \<noteq> int (length videos) then Inl (AssertionError [])
             else
               (let val_size = train_size + val_test_size div 2;
                    mk = (\<lambda>vs. \<lparr> ds_sentence = sentence_dataset, ds_videos = vs,
                                  ds_labels = labels, ds_threshold = threshold \<rparr>)
                in Inr (mk (slice videos None (Some train_size)),
                        mk (slice videos (Some train_size) (Some val_size)),
                        mk (slice videos (Some val_size) None))))))"

section \<open>The attention decoding step: \<open>better_model.py\<close>, \<open>CharDecoder.forward\<close>\<close>

text \<open>
  A tensor is a nested list of its entries, tagged with its element type and its number
  of dimensions, since \<open>torch.cat\<close> and the recurrent cell check both at run time. A
  dimension of size zero hides the sizes of the dimensions inside it: the model reads
  them as zero.
\<close>

datatype tensor =
    Long1 "int list"
  | Long2 "int list list"
  | Float1 "real list"
  | Float2 "real list list"
  | Float3 "real list list list"
  | Float4 "real list list list list"

fun ndim :: "tensor \<Rightarrow> nat" where
  "ndim (Long1 _) = 1"
| "ndim (Long2 _) = 2"
| "ndim (Float1 _) = 1"
| "ndim (Float2 _) = 2"
| "ndim (Float3 _) = 3"
| "ndim (Float4 _) = 4"

definition inner_size :: "'a list list \<Rightarrow> nat" where
  "inner_size xs = (case xs of [] \<Rightarrow> 0 | x # _ \<Rightarrow> length x)"

fun tensor_shape :: "tensor \<Rightarrow> nat list" where
  "tensor_shape (Long1 v) = [length v]"
| "tensor_shape (Long2 m) = [length m, inner_size m]"
| "tensor_shape (Float1 v) = [length v]"
| "tensor_shape (Float2 m) = [length m, inner_size m]"
| "tensor_shape (Float3 t) = [length t, inner_size t, inner_size (concat t)]"
| "tensor_shape (Float4 q) =
     [length q, inner_size q, inner_size (concat q), inner_size (concat (concat q))]"

text \<open>
  \<open>nn.Linear\<close>: \<open>weight\<close> has one row per output feature, and the layer applies to the
  last dimension of its input, which must have \<open>in_features\<close> entries.
\<close>

record linear =
  in_features :: nat
  weight :: "real list list"
  bias :: "real list"

definition dot :: "real list \<Rightarrow> real list \<Rightarrow> real" where
  "dot w x = sum_list (map2 (*) w x)"

definition linear_vec :: "linear \<Rightarrow> real list \<Rightarrow> py_error + real list" where
  "linear_vec l x =
     (if length x = in_features l then Inr (map2 (\<lambda>w b. dot w x + b) (weight l) (bias l))
      else Inl (RuntimeError ''mat1 and mat2 shapes cannot be multiplied''))"

fun linear_apply :: "linear \<Rightarrow> tensor \<Rightarrow> py_error + tensor" where
  "linear_apply l (Float1 v) = and_then (linear_vec l v) (\<lambda>r. Inr (Float1 r))"
| "linear_apply l (Float2 m) = and_then (traverse (linear_vec l) m) (\<lambda>r. Inr (Float2 r))"
| "linear_apply l (Float3 t) =
     and_then (traverse (traverse (linear_vec l)) t) (\<lambda>r. Inr (Float3 r))"
| "linear_apply l (Float4 q) =
     and_then (traverse (traverse (traverse (linear_vec l))) q) (\<lambda>r. Inr (Float4 r))"
| "linear_apply l (Long1 _) = Inl (RuntimeError ''expected a Float tensor'')"
| "linear_apply l (Long2 _) = Inl (RuntimeError ''expected a Float tensor'')"

fun tanh_tensor :: "tensor \<Rightarrow> tensor" where
  "tanh_tensor (Float1 v) = Float1 (map tanh v)"
| "tanh_tensor (Float2 m) = Float2 (map (map tanh) m)"
| "tanh_tensor (Float3 t) = Float3 (map (map (map tanh)) t)"
| "tanh_tensor (Float4 q) = Float4 (map (map (map (map tanh))) q)"
| "tanh_tensor (Long1 v) = Float1 (map (\<lambda>i. tanh (of_int i)) v)"
| "tanh_tensor (Long2 m) = Float2 (map (map (\<lambda>i. tanh (of_int i))) m)"

text \<open>
  The layers of \<open>CharDecoder.__init__\<close>, lines 89-94. \<open>embedding\<close> is the table of
  \<open>nn.Embedding\<close>, one row per character. \<open>rnn\<close> is the recurrent cell as a function of
  the tensor and the state it is called on; it returns the hidden states, which a
  recurrent cell gives as a three-dimensional float tensor, and the final state.
  \<open>attn_proj\<close> is \<open>nn.Linear(2 * hidden_size, 1)\<close>: one weight row and one bias.
\<close>

record 'st char_decoder =
  embedding :: "real list list"
  rnn :: "tensor \<Rightarrow> 'st \<Rightarrow> py_error + (real list list list \<times> 'st)"
  attn_weight :: "real list"
  attn_bias :: real
  concat_layer :: linear
  output_proj :: linear

text \<open>
  Line 111: \<open>torch.arange(en_seq_len).expand(batch_size, en_seq_len) <
  encoder_lens.unsqueeze(dim=1)\<close>. The comparison broadcasts a \<open>(batch_size, en_seq_len)\<close>
  tensor against a \<open>(len(encoder_lens), 1)\<close> one: the two row counts must be equal,
  or one of them 1.
\<close>

definition encoder_mask :: "nat \<Rightarrow> nat \<Rightarrow> int list \<Rightarrow> py_error + bool list list" where
  "encoder_mask batch_size en_seq_len encoder_lens =
     (if length encoder_lens = batch_size \<or> batch_size = 1
      then Inr (map (\<lambda>l. map (\<lambda>t. int t < l) [0..<en_seq_len]) encoder_lens)
      else if length encoder_lens = 1
      then Inr (replicate batch_size (map (\<lambda>t. int t < hd encoder_lens) [0..<en_seq_len]))
      else Inl (RuntimeError ''The size of tensor a must match the size of tensor b''))"

text \<open>Line 114: the embedding lookup raises on an index outside the table.\<close>

definition embedding_lookup :: "real list list \<Rightarrow> int list \<Rightarrow> py_error + real list list" where
  "embedding_lookup table char =
     (if list_all (\<lambda>c. 0 \<le> c \<and> c < int (length table)) char
      then Inr (map (\<lambda>c. table ! nat c) char)
      else Inl (IndexError ''index out of range in self''))"

text \<open>
  Lines 113-120. Line 116 rebinds \<open>char\<close> to \<open>char.unsqueeze(dim=1)\<close>, the index tensor
  with a second dimension of size 1, and line 120 calls the recurrent cell on it.
\<close>

definition forward_query ::
  "'st char_decoder \<Rightarrow> int list \<Rightarrow> 'st \<Rightarrow> py_error + (real list list list \<times> 'st)" where
  "forward_query self char previous_state =
     and_then (embedding_lookup (embedding self) char) (\<lambda>embedded_char.
       rnn self (Long2 (map (\<lambda>c. [c]) char)) previous_state)"

text \<open>
  \<open>expand_as\<close>, line 123: each dimension of the tensor is the target's, or has size 1
  and is repeated.
\<close>

definition expand_dim :: "nat \<Rightarrow> 'a list \<Rightarrow> py_error + 'a list" where
  "expand_dim n xs =
     (if length xs = n then Inr xs
      else if length xs = 1 then Inr (replicate n (hd xs))
      else Inl (RuntimeError ''The expanded size of the tensor must match the existing size''))"

definition expand_as ::
  "real list list list \<Rightarrow> real list list list \<Rightarrow> py_error + real list list list" where
  "expand_as t target =
     and_then (expand_dim (length target) t) (\<lambda>rows.
       traverse (\<lambda>m. and_then (expand_dim (inner_size target) m)
                   (traverse (expand_dim (inner_size (concat target))))) rows)"

text \<open>\<open>torch.cat\<close> along the last dimension of two three-dimensional tensors, line 125.\<close>

definition cat_last ::
  "real list list list \<Rightarrow> real list list list \<Rightarrow> py_error + real list list list" where
  "cat_last a b =
     (if map length a = map length b then Inr (map2 (map2 (@)) a b)
      else Inl (RuntimeError ''Sizes of tensors must match except in dimension 2''))"

definition attn_score :: "real list \<Rightarrow> real \<Rightarrow> real list \<Rightarrow> py_error + real" where
  "attn_score w b x =
     (if length x = length w then Inr (dot w x + b)
      else Inl (RuntimeError ''mat1 and mat2 shapes cannot be multiplied''))"

text \<open>
  Modelled from the spec: \<open>masked_softmax\<close>, imported from \<open>allennlp.nn.util\<close> (line 1)
  and not part of the repository. The spec calls it a softmax restricted to the valid
  positions, with exactly zero probability at the masked ones (exact renormalisation
  over the valid set), and asks for a defined fallback for a row without a valid
  position: such a row is all zero here.
\<close>

definition masked_softmax_row :: "real list \<Rightarrow> bool list \<Rightarrow> real list" where
  "masked_softmax_row v m =
     map2 (\<lambda>x valid. if valid then exp x / sum_list (map2 (\<lambda>y ok. if ok then exp y else 0) v m)
                     else 0) v m"

definition masked_softmax :: "real list list \<Rightarrow> bool list list \<Rightarrow> py_error + real list list" where
  "masked_softmax vector valid =
     (if map length vector = map length valid then Inr (map2 masked_softmax_row vector valid)
      else Inl (RuntimeError ''The size of tensor a must match the size of tensor b''))"

text \<open>Lines 111 and 127: the attention weights, before \<open>unsqueeze\<close>.\<close>

definition forward_attn_weights ::
  "nat \<Rightarrow> nat \<Rightarrow> int list \<Rightarrow> real list list \<Rightarrow> py_error + real list list" where
  "forward_attn_weights batch_size en_seq_len encoder_lens attn_logits =
     and_then (encoder_mask batch_size en_seq_len encoder_lens) (\<lambda>encoder_mask.
       masked_softmax attn_logits encoder_mask)"

text \<open>
  \<open>bmm\<close>, line 129: the two batches have the same size, and each matrix of the first
  has as many columns as the matching matrix of the second has rows.
\<close>

definition matmul :: "real list list \<Rightarrow> real list list \<Rightarrow> real list list" where
  "matmul a b = map (\<lambda>row. map (\<lambda>col. dot row col) (transpose b)) a"

definition bmm ::
  "real list list list \<Rightarrow> real list list list \<Rightarrow> py_error + real list list list" where
  "bmm a b =
     (if length a = length b \<and> list_all2 (\<lambda>x y. list_all (\<lambda>row. length row = length y) x) a b
      then Inr (map2 matmul a b)
      else Inl (RuntimeError ''batch1 and batch2 have incompatible shapes''))"

text \<open>
  Lines 122-129, from the hidden state of the recurrent cell to \<open>context\<close>. Line 129
  ends in \<open>unsqueeze(dim=1)\<close>: \<open>bmm\<close> gives \<open>(batch_size, 1, hidden_size)\<close> and
  \<open>context\<close> has four dimensions.
\<close>

definition forward_context ::
  "'st char_decoder \<Rightarrow> nat \<Rightarrow> int list \<Rightarrow> real list list list \<Rightarrow> real list list list \<Rightarrow>
   py_error + tensor" where
  "forward_context self batch_size encoder_lens encoder_hidden_states hidden_state =
     and_then (expand_as hidden_state encoder_hidden_states) (\<lambda>expanded_hidden_state.
     and_then (cat_last encoder_hidden_states expanded_hidden_state) (\<lambda>pairs.
     and_then (traverse (traverse (attn_score (attn_weight self) (attn_bias self))) pairs)
       (\<lambda>attn_logits.
     and_then (forward_attn_weights batch_size (inner_size encoder_hidden_states) encoder_lens
                 attn_logits) (\<lambda>weights.
     and_then (bmm (map (\<lambda>row. [row]) weights) encoder_hidden_states) (\<lambda>pooled.
       Inr (Float4 (map (\<lambda>m. [m]) pooled)))))))"

text \<open>
  \<open>squeeze(dim=1)\<close> of a three-dimensional tensor, line 132: the dimension goes when
  its size is 1 and stays otherwise.
\<close>

definition squeeze1 :: "real list list list \<Rightarrow> tensor" where
  "squeeze1 t = (if list_all (\<lambda>m. length m = 1) t then Float2 (map hd t) else Float3 t)"

text \<open>
  \<open>torch.cat([a, b], dim=1)\<close>, line 132: the two tensors must have the same number of
  dimensions and the same sizes in every dimension but the second.
\<close>

definition torch_cat1 :: "tensor \<Rightarrow> tensor \<Rightarrow> py_error + tensor" where
  "torch_cat1 a b =
     (if ndim a = ndim b
      then (if ndim a < 2 then Inl (IndexError ''Dimension out of range'')
            else if hd (tensor_shape a) # drop 2 (tensor_shape a) =
                    hd (tensor_shape b) # drop 2 (tensor_shape b)
            then (case (a, b) of
                    (Float2 x, Float2 y) \<Rightarrow> Inr (Float2 (map2 (@) x y))
                  | (Float3 x, Float3 y) \<Rightarrow> Inr (Float3 (map2 (@) x y))
                  | (Float4 x, Float4 y) \<Rightarrow> Inr (Float4 (map2 (@) x y))
                  | (Long2 x, Long2 y) \<Rightarrow> Inr (Long2 (map2 (@) x y))
                  | _ \<Rightarrow> Inl (RuntimeError ''expected tensors of one element type''))
            else Inl (RuntimeError ''Sizes of tensors must match except in dimension 1''))
      else Inl (RuntimeError ''Tensors must have same number of dimensions''))"

text \<open>Lines 131-138, from \<open>context\<close> and the hidden state to the returned pair.\<close>

definition forward_output ::
  "'st char_decoder \<Rightarrow> tensor \<Rightarrow> real list list list \<Rightarrow> 'st \<Rightarrow> py_error + (tensor \<times> 'st)" where
  "forward_output self context hidden_state final_state =
     and_then (torch_cat1 context (squeeze1 hidden_state)) (\<lambda>joined.
     and_then (linear_apply (concat_layer self) joined) (\<lambda>projected.
     and_then (linear_apply (output_proj self) (tanh_tensor projected)) (\<lambda>output_logits.
       Inr (output_logits, final_state))))"

text \<open>\<open>CharDecoder.forward\<close>, lines 96-138.\<close>

definition CharDecoder_forward ::
  "'st char_decoder \<Rightarrow> int list \<Rightarrow> 'st \<Rightarrow> int list \<Rightarrow> real list list list \<Rightarrow>
   py_error + (tensor \<times> 'st)" where
  "CharDecoder_forward self char previous_state encoder_lens encoder_hidden_states =
     and_then (forward_query self char previous_state) (\<lambda>(hidden_state, final_state).
     and_then (forward_context self (length char) encoder_lens encoder_hidden_states
                 hidden_state) (\<lambda>context.
       forward_output self context hidden_state final_state))"

section \<open>The sequence encoder: \<open>better_model.py\<close>, \<open>VideoEncoder.forward\<close>\<close>

text \<open>The recurrent cell classes of \<open>supported_rnns\<close>, lines 6-10.\<close>

datatype rnn_type = LSTM | RNN | GRU

text \<open>
  The final state of a recurrent cell: the tuple \<open>(h_n, c_n)\<close> of an LSTM, or the one
  tensor of the other two. Each tensor has one matrix \<open>(batch_size, hidden_size)\<close> per
  layer and direction.
\<close>

datatype final_state =
    StateTuple "real list list list" "real list list list"
  | StateTensor "real list list list"

text \<open>
  The attributes lines 18-26 give the encoder. \<open>encoder_rnn\<close> is \<open>self.rnn\<close> on one
  sequence of frames: a recurrent cell run on a packed batch runs each sequence on its
  own, over its valid frames only. It gives the hidden state at every step and the final
  hidden and cell state of every layer and direction, the forward direction of layer
  \<open>k\<close> at index \<open>2k\<close> and the backward one at \<open>2k + 1\<close> when bidirectional.
\<close>

record 'f video_encoder =
  hidden_size :: nat
  rnn_type :: rnn_type
  num_layers :: nat
  bidirectional :: bool
  encoder_rnn :: "'f list \<Rightarrow> real list list \<times> real list list \<times> real list list"

definition num_directions :: "'f video_encoder \<Rightarrow> nat" where
  "num_directions self = (if bidirectional self then 2 else 1)"

text \<open>
  \<open>tensor.sort\<close> gives the sorted values and the indices they came from;
  \<open>index_select\<close> along the first dimension raises on an index outside the tensor.
\<close>

definition argsort_descending :: "int list \<Rightarrow> nat list" where
  "argsort_descending ls = map snd (sort_key (\<lambda>p. - fst p) (zip ls [0..<length ls]))"

definition argsort_ascending :: "nat list \<Rightarrow> nat list" where
  "argsort_ascending ps = map snd (sort_key fst (zip ps [0..<length ps]))"

definition index_select :: "'a list \<Rightarrow> nat list \<Rightarrow> py_error + 'a list" where
  "index_select xs idx =
     (if list_all (\<lambda>i. i < length xs) idx then Inr (map ((!) xs) idx)
      else Inl (IndexError ''index out of range in self''))"

text \<open>
  Modelled from the spec: \<open>sort_batch_by_length\<close>, imported from \<open>allennlp.nn.util\<close>
  (line 1) and not part of the repository. The spec has the encoder sort the samples by
  descending length and record the inverse permutation at sort time: the function
  returns the sorted tensor, the sorted lengths, the indices that restore the original
  order and the sorting permutation.
\<close>

definition sort_batch_by_length ::
  "'a list \<Rightarrow> int list \<Rightarrow> py_error + ('a list \<times> int list \<times> nat list \<times> nat list)" where
  "sort_batch_by_length tensor sequence_lengths =
     (let permutation_index = argsort_descending sequence_lengths;
          sorted_sequence_lengths = map ((!) sequence_lengths) permutation_index;
          restoration_indices = argsort_ascending permutation_index
      in and_then (index_select tensor permutation_index) (\<lambda>sorted_tensor.
           Inr (sorted_tensor, sorted_sequence_lengths, restoration_indices,
                permutation_index)))"

text \<open>
  \<open>pack_padded_sequence\<close> with \<open>batch_first=True\<close>, lines 38-40: one length per
  sample, in decreasing order and each positive. The packed batch holds the valid frames
  of each sample. A length beyond the padded length breaks the encoder's input
  constraint; the model raises there.
\<close>

definition pack_padded_sequence :: "'f list list \<Rightarrow> int list \<Rightarrow> py_error + 'f list list" where
  "pack_padded_sequence input lengths =
     (if input = [] then Inl (RuntimeError ''Cannot pack empty tensors'')
      else if \<not> length lengths = length input
      then Inl (RuntimeError ''Expected len(lengths) to be equal to batch_size'')
      else if \<not> sorted (rev lengths)
      then Inl (RuntimeError ''lengths array must be sorted in decreasing order'')
      else if \<not> list_all (\<lambda>l. 0 < l) lengths
      then Inl (RuntimeError ''Length of all samples has to be greater than 0'')
      else if \<not> list_all2 (\<lambda>l x. l \<le> int (length x)) lengths input
      then Inl (RuntimeError ''a length exceeds the padded sequence'')
      else Inr (map2 (\<lambda>l x. take (nat l) x) lengths input))"

text \<open>
  Line 43: the cell on the packed batch. The final states of the sequences are gathered
  into one matrix per layer and direction, with one row per sample; an LSTM returns the
  hidden and the cell states as a tuple, the other cells the hidden states alone.
\<close>

definition layer_major :: "nat \<Rightarrow> real list list list \<Rightarrow> real list list list" where
  "layer_major n states = map (\<lambda>k. map (\<lambda>s. s ! k) states) [0..<n]"

definition rnn_state ::
  "rnn_type \<Rightarrow> real list list list \<Rightarrow> real list list list \<Rightarrow> final_state" where
  "rnn_state t h_n c_n = (if t = LSTM then StateTuple h_n c_n else StateTensor h_n)"

definition run_rnn ::
  "'f video_encoder \<Rightarrow> 'f list list \<Rightarrow> real list list list \<times> final_state" where
  "run_rnn self packed =
     (let outs = map (encoder_rnn self) packed;
          n = num_layers self * num_directions self;
          h_n = layer_major n (map (\<lambda>(out, h, c). h) outs);
          c_n = layer_major n (map (\<lambda>(out, h, c). c) outs)
      in (map (\<lambda>(out, h, c). out) outs, rnn_state (rnn_type self) h_n c_n))"

text \<open>
  \<open>pad_packed_sequence\<close> with \<open>batch_first=True\<close>, line 46: every sequence is padded
  with zero vectors to the length of the longest.
\<close>

definition pad_packed_sequence :: "nat \<Rightarrow> real list list list \<Rightarrow> real list list list" where
  "pad_packed_sequence width seqs =
     map (\<lambda>s. s @ replicate (fold max (map length seqs) 0 - length s) (replicate width 0)) seqs"

text \<open>
  \<open>_cat_directions\<close>, lines 61-75. \<open>s[0:n:2]\<close> and \<open>s[1:n:2]\<close> are the matrices at the
  even and at the odd indices; \<open>torch.cat\<close> joins them along the feature dimension and
  raises unless the two halves have as many matrices, with as many rows.
\<close>

fun every_other :: "'a list \<Rightarrow> 'a list" where
  "every_other [] = []"
| "every_other [x] = [x]"
| "every_other (x # y # zs) = x # every_other zs"

definition cat_pairs :: "real list list list \<Rightarrow> py_error + real list list list" where
  "cat_pairs s = cat_last (every_other s) (every_other (tl s))"

definition cat_directions :: "final_state \<Rightarrow> py_error + final_state" where
  "cat_directions final_state =
     (case final_state of
        StateTuple h c \<Rightarrow>
          and_then (cat_pairs h) (\<lambda>h'. and_then (cat_pairs c) (\<lambda>c'. Inr (StateTuple h' c')))
      | StateTensor h \<Rightarrow> and_then (cat_pairs h) (\<lambda>h'. Inr (StateTensor h')))"

text \<open>Lines 53-57: \<open>index_select(1, restoration_indices)\<close> on each tensor of the state.\<close>

definition index_select1 :: "'a list list \<Rightarrow> nat list \<Rightarrow> py_error + 'a list list" where
  "index_select1 t idx = traverse (\<lambda>m. index_select m idx) t"

definition state_index_select :: "final_state \<Rightarrow> nat list \<Rightarrow> py_error + final_state" where
  "state_index_select final_state idx =
     (case final_state of
        StateTuple h c \<Rightarrow>
          and_then (index_select1 h idx) (\<lambda>h'.
          and_then (index_select1 c idx) (\<lambda>c'. Inr (StateTuple h' c')))
      | StateTensor h \<Rightarrow> and_then (index_select1 h idx) (\<lambda>h'. Inr (StateTensor h')))"

text \<open>\<open>VideoEncoder.forward\<close>, lines 28-59.\<close>

definition VideoEncoder_forward ::
  "'f video_encoder \<Rightarrow> 'f list list \<Rightarrow> int list \<Rightarrow>
   py_error + (real list list list \<times> final_state)" where
  "VideoEncoder_forward self frames frame_lens =
     and_then (sort_batch_by_length frames frame_lens)
       (\<lambda>(sorted_frames, sorted_frame_lens, restoration_indices, permutation_index).
     and_then (pack_padded_sequence sorted_frames sorted_frame_lens) (\<lambda>packed_frames.
     and_then (if bidirectional self then cat_directions (snd (run_rnn self packed_frames))
               else Inr (snd (run_rnn self packed_frames))) (\<lambda>final_state.
     and_then (index_select
                 (pad_packed_sequence (num_directions self * hidden_size self)
                    (fst (run_rnn self packed_frames)))
                 restoration_indices) (\<lambda>hidden_states.
     and_then (state_index_select final_state restoration_indices) (\<lambda>final_state.
       Inr (hidden_states, final_state))))))"

text \<open>A tensor of three dimensions with the given sizes.\<close>

definition has_shape3 :: "'a list list list \<Rightarrow> nat \<Rightarrow> nat \<Rightarrow> nat \<Rightarrow> bool" where
  "has_shape3 t a b c =
     (length t = a \<and> list_all (\<lambda>m. length m = b \<and> list_all (\<lambda>v. length v = c) m) t)"

fun state_has_shape :: "final_state \<Rightarrow> nat \<Rightarrow> nat \<Rightarrow> nat \<Rightarrow> bool" where
  "state_has_shape (StateTuple h c) l b w = (has_shape3 h l b w \<and> has_shape3 c l b w)"
| "state_has_shape (StateTensor h) l b w = has_shape3 h l b w"

text \<open>
  The encoder sample by sample, without sorting, packing and restoring: a sample is its
  padded frames and its length, \<open>valid_frames\<close> the frames the cell runs on. With both
  directions the final states of layer \<open>l\<close> are joined, forward then backward.
\<close>

definition valid_frames :: "'f list \<times> int \<Rightarrow> 'f list" where
  "valid_frames s = take (nat (snd s)) (fst s)"

definition merge_directions :: "'f video_encoder \<Rightarrow> real list list \<Rightarrow> real list list" where
  "merge_directions self st =
     (if bidirectional self
      then map (\<lambda>l. st ! (2 * l) @ st ! (2 * l + 1)) [0..<num_layers self]
      else map (\<lambda>l. st ! l) [0..<num_layers self])"

definition encode_samples ::
  "'f video_encoder \<Rightarrow> ('f list \<times> int) list \<Rightarrow> real list list list \<times> final_state" where
  "encode_samples self samples =
     (let outs = map (\<lambda>s. encoder_rnn self (valid_frames s)) samples;
          h = layer_major (num_layers self) (map (\<lambda>(out, h, c). merge_directions self h) outs);
          c = layer_major (num_layers self) (map (\<lambda>(out, h, c). merge_directions self c) outs)
      in (pad_packed_sequence (num_directions self * hidden_size self)
            (map (\<lambda>(out, h, c). out) outs),
          rnn_state (rnn_type self) h c))"

text \<open>
  The input constraint of the encoder: a batch is not empty, has one length per sample,
  and every length is positive and within the padded length of its sample.
\<close>

definition well_formed_batch :: "'f list list \<Rightarrow> int list \<Rightarrow> bool" where
  "well_formed_batch frames frame_lens =
     (frames \<noteq> [] \<and> length frame_lens = length frames \<and>
      list_all2 (\<lambda>l x. 0 < l \<and> l \<le> int (length x)) frame_lens frames)"

text \<open>
  What the claims take from the recurrent cell: on a sequence that is not empty it gives
  one hidden vector per frame, of \<open>num_directions * hidden_size\<close> entries, and one final
  hidden and one final cell vector of \<open>hidden_size\<close> entries per layer and direction.
\<close>

definition rnn_shapes :: "'f video_encoder \<Rightarrow> 'f list \<Rightarrow> bool" where
  "rnn_shapes self seq =
     (case encoder_rnn self seq of (out, h, c) \<Rightarrow>
        length out = length seq \<and>
        list_all (\<lambda>v. length v = num_directions self * hidden_size self) out \<and>
        length h = num_layers self * num_directions self \<and>
        list_all (\<lambda>v. length v = hidden_size self) h \<and>
        length c = num_layers self * num_directions self \<and>
        list_all (\<lambda>v. length v = hidden_size self) c)"

section \<open>Properties of model construction\<close>

lemma bind_encoder_call:
  "bind_arguments VideoEncoder_signature 2 encoder_call_keywords =
     Inl (TypeError ''unexpected keyword argument: enable_ctc'')"
  by (simp add: bind_arguments_def VideoEncoder_signature_def encoder_call_keywords_def
      and_then_def)

lemma VideoEncoder_init_fresh:
  "VideoEncoder_init make_rnn Map.empty fd hs rt nl bi dr = Inl (AttributeError ''frame_dim'')"
  by (simp add: VideoEncoder_init_def setattr_def getattr_def and_then_def)

text \<open>
  C7. For every argument assignment, \<open>_init_models\<close> raises: its first statement passes
  the keyword \<open>enable_ctc\<close>, which \<open>VideoEncoder.__init__\<close> does not accept
  (\<open>vocab_size\<close> and \<open>char2idx\<close> are not parameters either); the model module has no
  attribute \<open>CharDecodingStep\<close>, while \<open>CharDecoder\<close> is there with other parameters;
  and \<open>VideoEncoder.__init__\<close> run on a fresh object raises at its read of
  \<open>self.frame_dim\<close>, whatever the arguments and the recurrent-cell class.
\<close>

theorem init_models_raises:
  "init_models make_rnn decoder_init fd hs rt nl bi dr =
     Inl (TypeError ''unexpected keyword argument: enable_ctc'')
   \<and> filter (\<lambda>k. k \<notin> set (sig_params VideoEncoder_signature)) encoder_call_keywords =
       [''enable_ctc'', ''vocab_size'', ''char2idx'']
   \<and> module_getattr better_model_names ''CharDecodingStep'' =
       Inl (AttributeError ''CharDecodingStep'')
   \<and> module_getattr better_model_names ''CharDecoder'' = Inr ''CharDecoder''
   \<and> sig_params CharDecoder_signature \<noteq> ''encoder'' # decoding_step_call_keywords
   \<and> VideoEncoder_init make_rnn Map.empty fd hs rt nl bi dr =
       Inl (AttributeError ''frame_dim'')"
proof -
  have 1: "init_models make_rnn decoder_init fd hs rt nl bi dr =
      Inl (TypeError ''unexpected keyword argument: enable_ctc'')"
    by (simp add: init_models_def module_getattr_def better_model_names_def
        bind_encoder_call and_then_def)
  have 2: "filter (\<lambda>k. k \<notin> set (sig_params VideoEncoder_signature)) encoder_call_keywords =
       [''enable_ctc'', ''vocab_size'', ''char2idx'']"
    by (simp add: VideoEncoder_signature_def encoder_call_keywords_def)
  have 3: "module_getattr better_model_names ''CharDecodingStep'' =
       Inl (AttributeError ''CharDecodingStep'')"
    by (simp add: module_getattr_def better_model_names_def)
  have 4: "module_getattr better_model_names ''CharDecoder'' = Inr ''CharDecoder''"
    by (simp add: module_getattr_def better_model_names_def)
  have 5: "sig_params CharDecoder_signature \<noteq> ''encoder'' # decoding_step_call_keywords"
    by (simp add: CharDecoder_signature_def decoding_step_call_keywords_def)
  have 6: "VideoEncoder_init make_rnn Map.empty fd hs rt nl bi dr =
       Inl (AttributeError ''frame_dim'')"
    by (rule VideoEncoder_init_fresh)
  from 1 2 3 4 5 6 show ?thesis by (intro conjI)
qed

section \<open>Properties of the epoch loop\<close>

lemma epoch_body_ctc:
  "epoch_body st r = Inr st' \<Longrightarrow> train_ctc_losses st' = train_ctc_losses st"
  by (auto simp: epoch_body_def and_then_def Let_def split: sum.splits)

lemma epoch_loop_ctc:
  "epoch_loop st rs = Inr st' \<Longrightarrow> train_ctc_losses st' = train_ctc_losses st"
proof (induction rs arbitrary: st)
  case Nil
  then show ?case by simp
next
  case (Cons r rs)
  then obtain st1 where b: "epoch_body st r = Inr st1" and l: "epoch_loop st1 rs = Inr st'"
    by (auto simp: and_then_def split: sum.splits)
  from Cons.IH [OF l] epoch_body_ctc [OF b] show ?case by simp
qed

lemma summary_no_ctc:
  "train_ctc_losses st = [] \<Longrightarrow> \<exists>ls e. summary t n st = (ls, Some e)"
  by (auto simp: summary_def np_min_def Let_def split: sum.splits list.splits)

text \<open>
  C10 (the code departs from the claim). Whatever the epochs return, the loop never
  appends to \<open>train_ctc_losses\<close>: line 200 appends the value to itself. With one epoch
  that returns the numbers 0.5 and 0.25 the run ends in an \<open>AttributeError\<close> before the
  summary; with a list in place of 0.25 the summary prints three lines and ends in the
  \<open>ValueError\<close> of \<open>np.min\<close> on the empty list. No run prints a best CTC loss.
\<close>

theorem ctc_losses_never_accumulated:
  "(case epoch_loop initial_stats epochs of
      Inl e \<Rightarrow> True | Inr st \<Rightarrow> train_ctc_losses st = [])
   \<and> (\<exists>ls e. train_tail total_time epochs = (ls, Some e))
   \<and> train_tail 10 [\<lparr>val_cer = 1, test_cer = 1, avg_decoder_loss = 0.5,
                      avg_ctc_loss = Number 0.25\<rparr>] = ([], Some (AttributeError ''append''))
   \<and> train_tail 10 [\<lparr>val_cer = 1, test_cer = 1, avg_decoder_loss = 0.5,
                      avg_ctc_loss = ListOf [0.25]\<rparr>] =
       ([TimeLine 10 10, BestValCER 1, BestTestCER 1, BestDecoderLoss 0.5],
        Some (ValueError ''zero-size array''))"
proof -
  have a: "case epoch_loop initial_stats epochs of
      Inl e \<Rightarrow> True | Inr st \<Rightarrow> train_ctc_losses st = []"
    using epoch_loop_ctc [of initial_stats epochs] by (simp add: initial_stats_def split: sum.split)
  have b: "\<exists>ls e. train_tail total_time epochs = (ls, Some e)"
  proof (cases "epoch_loop initial_stats epochs")
    case (Inl e)
    then show ?thesis by (simp add: train_tail_def)
  next
    case (Inr s)
    then have "train_ctc_losses s = []"
      using epoch_loop_ctc [of initial_stats epochs s] by (simp add: initial_stats_def)
    from summary_no_ctc [OF this] Inr show ?thesis by (simp add: train_tail_def)
  qed
  have c: "train_tail 10 [\<lparr>val_cer = 1, test_cer = 1, avg_decoder_loss = 0.5,
                      avg_ctc_loss = Number 0.25\<rparr>] = ([], Some (AttributeError ''append''))"
    by (simp add: train_tail_def epoch_body_def py_append_def and_then_def initial_stats_def)
  have d: "train_tail 10 [\<lparr>val_cer = 1, test_cer = 1, avg_decoder_loss = 0.5,
                      avg_ctc_loss = ListOf [0.25]\<rparr>] =
       ([TimeLine 10 10, BestValCER 1, BestTestCER 1, BestDecoderLoss 0.5],
        Some (ValueError ''zero-size array''))"
    by (simp add: train_tail_def epoch_body_def py_append_def and_then_def initial_stats_def
        summary_def np_min_def)
  from a b c d show ?thesis by blast
qed

section \<open>Properties of the dataset split\<close>

lemma binade_eq:
  assumes "0 < x" "2 powr of_int e \<le> x" "x < 2 powr of_int (e + 1)"
  shows "binade x = e"
  using assms by (simp add: binade_def floor_log_eq_powr_iff)

lemma round_double_at:
  assumes "0 < x" "2 powr of_int e \<le> x" "x < 2 powr of_int (e + 1)"
  shows "round_double x =
    of_int (py_round (x / 2 powr of_int (e - 52))) * 2 powr of_int (e - 52)"
  using assms binade_eq [OF assms] by (simp add: round_double_def)

text \<open>The doubles of lines 59-60 for seven, ten and forty-five videos.\<close>

lemma double_0_8: "round_double (4 / 5) = 3602879701896397 / 4503599627370496"
  using round_double_at [of "4 / 5" "- 1"]
  by (simp add: powr_minus py_round_def Let_def)

lemma double_0_3: "round_double (3 / 10) = 5404319552844595 / 18014398509481984"
  using round_double_at [of "3 / 10" "- 2"]
  by (simp add: powr_minus py_round_def Let_def)

lemma float_of_7: "float_of_nat 7 = 7"
  using round_double_at [of 7 2]
  by (simp add: float_of_nat_def powr_minus py_round_def Let_def)

lemma float_of_10: "float_of_nat 10 = 10"
  using round_double_at [of 10 3]
  by (simp add: float_of_nat_def powr_minus py_round_def Let_def)

lemma float_of_45: "float_of_nat 45 = 45"
  using round_double_at [of 45 5]
  by (simp add: float_of_nat_def powr_minus py_round_def Let_def)

lemma one_minus_0_8:
  "float_sub 1 (3602879701896397 / 4503599627370496) = 900719925474099 / 4503599627370496"
  using round_double_at [of "1 - 3602879701896397 / 4503599627370496" "- 3"]
  by (simp add: float_sub_def powr_minus py_round_def Let_def)

lemma one_minus_0_3:
  "float_sub 1 (5404319552844595 / 18014398509481984) = 3152519739159347 / 4503599627370496"
  using round_double_at [of "1 - 5404319552844595 / 18014398509481984" "- 1"]
  by (simp add: float_sub_def powr_minus py_round_def Let_def)

lemma product_7:
  "float_mul (3602879701896397 / 4503599627370496) 7 = 6305039478318695 / 1125899906842624"
  using round_double_at [of "3602879701896397 / 4503599627370496 * 7" 2]
  by (simp add: float_mul_def powr_minus py_round_def Let_def)

lemma rest_7:
  "float_mul 7 (900719925474099 / 4503599627370496) = 6305039478318693 / 4503599627370496"
  using round_double_at [of "7 * (900719925474099 / 4503599627370496)" 0]
  by (simp add: float_mul_def powr_minus py_round_def Let_def)

lemma product_10: "float_mul (3602879701896397 / 4503599627370496) 10 = 8"
  using round_double_at [of "3602879701896397 / 4503599627370496 * 10" 3]
  by (simp add: float_mul_def powr_minus py_round_def Let_def)

lemma rest_10:
  "float_mul 10 (900719925474099 / 4503599627370496) = 4503599627370495 / 2251799813685248"
  using round_double_at [of "10 * (900719925474099 / 4503599627370496)" 0]
  by (simp add: float_mul_def powr_minus py_round_def Let_def)

lemma product_45: "float_mul (5404319552844595 / 18014398509481984) 45 = 27 / 2"
  using round_double_at [of "5404319552844595 / 18014398509481984 * 45" 3]
  by (simp add: float_mul_def powr_minus py_round_def Let_def)

lemma rest_45:
  "float_mul 45 (3152519739159347 / 4503599627370496) = 8866461766385663 / 281474976710656"
  using round_double_at [of "45 * (3152519739159347 / 4503599627370496)" 4]
  by (simp add: float_mul_def powr_minus py_round_def Let_def)

lemma train_size_7: "py_int (float_mul (3602879701896397 / 4503599627370496) 7) = 5"
  by (simp add: product_7 py_int_def)

lemma val_test_size_7: "py_round (float_mul 7 (900719925474099 / 4503599627370496)) = 1"
  by (simp add: rest_7 py_round_def Let_def)

lemma train_size_10: "py_int (float_mul (3602879701896397 / 4503599627370496) 10) = 8"
  by (simp add: product_10 py_int_def)

lemma val_test_size_10: "py_round (float_mul 10 (900719925474099 / 4503599627370496)) = 2"
  by (simp add: rest_10 py_round_def Let_def)

lemma train_size_45: "py_int (float_mul (5404319552844595 / 18014398509481984) 45) = 13"
  by (simp add: product_45 py_int_def)

lemma val_test_size_45: "py_round (float_mul 45 (3152519739159347 / 4503599627370496)) = 31"
  by (simp add: rest_45 py_round_def Let_def)

lemma get_datasets_at:
  assumes "globbed \<noteq> []" and "length (shuffle (sort globbed)) = n"
  shows "snd (get_datasets shuffle labels_path read_result globbed train_split
                sentence_dataset threshold) =
    (if py_int (float_mul train_split (float_of_nat n)) +
        py_round (float_mul (float_of_nat n) (float_sub 1 train_split)) \<noteq> int n
     then Inl (AssertionError [])
     else Inr
       (\<lparr> ds_sentence = sentence_dataset,
           ds_videos = slice (shuffle (sort globbed)) None
             (Some (py_int (float_mul train_split (float_of_nat n)))),
           ds_labels = fst (load_labels labels_path read_result), ds_threshold = threshold \<rparr>,
        \<lparr> ds_sentence = sentence_dataset,
           ds_videos = slice (shuffle (sort globbed))
             (Some (py_int (float_mul train_split (float_of_nat n))))
             (Some (py_int (float_mul train_split (float_of_nat n)) +
                    py_round (float_mul (float_of_nat n) (float_sub 1 train_split)) div 2)),
           ds_labels = fst (load_labels labels_path read_result), ds_threshold = threshold \<rparr>,
        \<lparr> ds_sentence = sentence_dataset,
           ds_videos = slice (shuffle (sort globbed))
             (Some (py_int (float_mul train_split (float_of_nat n)) +
                    py_round (float_mul (float_of_nat n) (float_sub 1 train_split)) div 2))
             None,
           ds_labels = fst (load_labels labels_path read_result), ds_threshold = threshold \<rparr>))"
  using assms by (simp add: get_datasets_def Let_def split: prod.split)

text \<open>
  C8 (the code departs from the claim). Line 59 truncates \<open>train_split * n\<close> and line
  60 rounds \<open>n * (1.0 - train_split)\<close>, so the two sizes need not sum to \<open>n\<close>, and
  then the assertion of line 61 ends the call before any dataset is built. With seven
  videos and the default fraction 0.8 the doubles are 5.6000000000000005 and
  1.3999999999999997, the sizes 5 and 1. With forty-five videos and 0.3 they are 13.5
  and 31.499999999999996, the sizes 13 and 31. With ten videos and 0.8 the sizes are 8
  and 2, and the sets are the first eight shuffled videos, the ninth and the tenth.
\<close>

theorem get_datasets_assertion_fails:
  "snd (get_datasets rev labels_path read_result [0..<7] (round_double (4 / 5))
          sentence_dataset threshold) = Inl (AssertionError [])
   \<and> snd (get_datasets rev labels_path read_result [0..<45] (round_double (3 / 10))
          sentence_dataset threshold) = Inl (AssertionError [])
   \<and> map_sum id (\<lambda>(tr, va, te). (ds_videos tr, ds_videos va, ds_videos te))
         (snd (get_datasets rev labels_path read_result [1, 2, 3, 4, 5, 6, 7, 8, 9, 10 :: nat]
                 (round_double (4 / 5)) sentence_dataset threshold)) =
       Inr ([10, 9, 8, 7, 6, 5, 4, 3], [2], [1])"
proof -
  have n7: "[0..<7] \<noteq> []" and l7: "length (rev (sort [0..<7])) = 7" by simp_all
  have n45: "[0..<45] \<noteq> []" and l45: "length (rev (sort [0..<45])) = 45" by simp_all
  have n10: "[1, 2, 3, 4, 5, 6, 7, 8, 9, 10 :: nat] \<noteq> []"
    and l10: "length (rev (sort [1, 2, 3, 4, 5, 6, 7, 8, 9, 10 :: nat])) = 10" by simp_all
  have s10: "rev (sort [1, 2, 3, 4, 5, 6, 7, 8, 9, 10 :: nat]) = [10, 9, 8, 7, 6, 5, 4, 3, 2, 1]"
    by simp
  have 1: "snd (get_datasets rev labels_path read_result [0..<7]
      (round_double (4 / 5)) sentence_dataset threshold) = Inl (AssertionError [])"
    unfolding get_datasets_at [where shuffle = rev, OF n7 l7] double_0_8 float_of_7 one_minus_0_8 train_size_7
      val_test_size_7 by simp
  have 2: "snd (get_datasets rev labels_path read_result [0..<45] (round_double (3 / 10))
      sentence_dataset threshold) = Inl (AssertionError [])"
    unfolding get_datasets_at [where shuffle = rev, OF n45 l45] double_0_3 float_of_45 one_minus_0_3 train_size_45
      val_test_size_45 by simp
  have 3: "map_sum id (\<lambda>(tr, va, te). (ds_videos tr, ds_videos va, ds_videos te))
         (snd (get_datasets rev labels_path read_result [1, 2, 3, 4, 5, 6, 7, 8, 9, 10 :: nat]
                 (round_double (4 / 5)) sentence_dataset threshold)) =
       Inr ([10, 9, 8, 7, 6, 5, 4, 3], [2], [1])"
    unfolding get_datasets_at [where shuffle = rev, OF n10 l10] double_0_8 float_of_10 one_minus_0_8 train_size_10
      val_test_size_10 s10 by (simp add: slice_def slice_index_def)
  from 1 2 3 show ?thesis by (intro conjI)
qed


lemma get_datasets_labels:
  "snd (get_datasets shuffle labels_path read_result globbed train_split sentence_dataset
          threshold) = Inr (tr, va, te) \<Longrightarrow>
   ds_labels tr = fst (load_labels labels_path read_result) \<and>
   ds_labels va = fst (load_labels labels_path read_result) \<and>
   ds_labels te = fst (load_labels labels_path read_result)"
  by (auto simp: get_datasets_def Let_def split: prod.splits if_splits)



section \<open>Properties of the decoding step\<close>

lemma masked_row_length:
  "length (masked_softmax_row v m) = min (length v) (length m)"
  by (simp add: masked_softmax_row_def)

lemma masked_row_nth:
  assumes "t < length v" "t < length m"
  shows "masked_softmax_row v m ! t =
    (if m ! t then exp (v ! t) / sum_list (map2 (\<lambda>y ok. if ok then exp y else 0) v m) else 0)"
  using assms by (simp add: masked_softmax_row_def)

lemma masked_total:
  assumes "length v = T"
  shows "sum_list (map2 (\<lambda>y ok. if ok then exp y else 0) v (map (\<lambda>t. int t < l) [0..<T])) =
         (\<Sum>t<min (nat l) T. exp (v ! t))"
proof -
  have "sum_list (map2 (\<lambda>y ok. if ok then exp y else 0) v (map (\<lambda>t. int t < l) [0..<T])) =
        (\<Sum>t = 0..<T. if int t < l then exp (v ! t) else 0)"
    using assms by (simp add: sum_list_sum_nth)
  also have "\<dots> = (\<Sum>t\<in>{t. t < T \<and> int t < l}. exp (v ! t))"
    by (simp add: sum.If_cases Int_def)
  also have "{t. t < T \<and> int t < l} = {..<min (nat l) T}"
    by auto
  finally show ?thesis .
qed

lemma masked_row_sum:
  assumes len: "length v = T" and pos: "0 < l" "0 < T"
  shows "sum_list (take (nat l) (masked_softmax_row v (map (\<lambda>t. int t < l) [0..<T]))) = 1"
proof -
  define m where "m = map (\<lambda>t. int t < l) [0..<T]"
  define k where "k = min (nat l) T"
  define z where "z = sum_list (map2 (\<lambda>y ok. if ok then exp y else 0) v m)"
  have z: "z = (\<Sum>t<k. exp (v ! t))"
    unfolding z_def m_def k_def using len by (rule masked_total)
  have "0 < k" using pos by (simp add: k_def)
  then have "{..<k} \<noteq> {}" by auto
  then have zpos: "0 < z" unfolding z by (intro sum_pos) simp_all
  have lk: "length (take (nat l) (masked_softmax_row v m)) = k"
    using len by (simp add: masked_row_length m_def k_def min.commute)
  have "sum_list (take (nat l) (masked_softmax_row v m)) =
        (\<Sum>t = 0..<k. take (nat l) (masked_softmax_row v m) ! t)"
    using lk by (simp add: sum_list_sum_nth)
  also have "\<dots> = (\<Sum>t = 0..<k. exp (v ! t) / z)"
  proof (rule sum.cong)
    fix t assume "t \<in> {0..<k}"
    then have t: "t < nat l" "t < T" by (simp_all add: k_def)
    then have "int t < l" by linarith
    with t show "take (nat l) (masked_softmax_row v m) ! t = exp (v ! t) / z"
      using len by (simp add: masked_row_nth m_def z_def)
  qed simp
  also have "\<dots> = (\<Sum>t<k. exp (v ! t)) / z"
    by (simp add: sum_divide_distrib atLeast0LessThan)
  also have "\<dots> = 1" using z zpos by simp
  finally show ?thesis by (simp add: m_def)
qed

lemma attn_weights_rows:
  assumes ok: "forward_attn_weights batch_size T encoder_lens attn_logits = Inr w"
    and same: "length encoder_lens = batch_size"
  shows "length w = min (length attn_logits) batch_size"
    and "i < length attn_logits \<Longrightarrow> i < batch_size \<Longrightarrow>
         length (attn_logits ! i) = T \<and>
         w ! i = masked_softmax_row (attn_logits ! i) (map (\<lambda>t. int t < encoder_lens ! i) [0..<T])"
proof -
  define m where "m = map (\<lambda>l. map (\<lambda>t. int t < l) [0..<T]) encoder_lens"
  have mask: "encoder_mask batch_size T encoder_lens = Inr m"
    using same by (simp add: encoder_mask_def m_def)
  with ok have shape: "map length attn_logits = map length m"
    and w: "w = map2 masked_softmax_row attn_logits m"
    by (auto simp: forward_attn_weights_def and_then_def masked_softmax_def split: if_splits)
  from shape have ll: "length attn_logits = length m" by (metis length_map)
  show "length w = min (length attn_logits) batch_size"
    using same by (simp add: w m_def)
  assume i: "i < length attn_logits" "i < batch_size"
  from shape i have "length (attn_logits ! i) = length (m ! i)"
    by (metis length_map nth_map ll)
  moreover have "m ! i = map (\<lambda>t. int t < encoder_lens ! i) [0..<T]"
    using i same by (simp add: m_def)
  ultimately show "length (attn_logits ! i) = T \<and>
      w ! i = masked_softmax_row (attn_logits ! i) (map (\<lambda>t. int t < encoder_lens ! i) [0..<T])"
    using i same ll by (simp add: w)
qed

lemma attn_weights_defined:
  assumes "length encoder_lens = batch_size" "length attn_logits = batch_size"
    and "list_all (\<lambda>row. length row = T) attn_logits"
  shows "\<exists>w. forward_attn_weights batch_size T encoder_lens attn_logits = Inr w"
proof -
  have "map length attn_logits = replicate batch_size T"
    using assms(2,3) by (intro nth_equalityI) (simp_all add: list_all_length)
  moreover have "map length (map (\<lambda>l. map (\<lambda>t. int t < l) [0..<T]) encoder_lens) =
      replicate batch_size T"
    using assms(1) by (intro nth_equalityI) simp_all
  ultimately show ?thesis
    using assms(1)
    by (simp add: forward_attn_weights_def encoder_mask_def and_then_def masked_softmax_def)
qed

text \<open>
  C1, with \<open>masked_softmax\<close> as the spec describes it. For attention logits of shape
  \<open>(batch_size, en_seq_len)\<close> and one length per sample, lines 111 and 127 return
  weights of the same shape; in the row of every sample the weight at each position
  \<open>t \<ge> encoder_lens[i]\<close> is exactly zero, and when \<open>encoder_lens[i] > 0\<close> (and there
  is at least one encoder timestep) the weights at the positions
  \<open>t < encoder_lens[i]\<close> sum to 1.
\<close>

theorem attention_weights_distribution:
  assumes lens: "length encoder_lens = batch_size"
    and rows: "length attn_logits = batch_size"
    and cols: "list_all (\<lambda>row. length row = T) attn_logits"
    and i: "i < batch_size"
  shows "\<exists>w. forward_attn_weights batch_size T encoder_lens attn_logits = Inr w \<and>
           length w = batch_size \<and> length (w ! i) = T \<and>
           (\<forall>t<T. encoder_lens ! i \<le> int t \<longrightarrow> w ! i ! t = 0) \<and>
           (0 < encoder_lens ! i \<and> 0 < T \<longrightarrow>
              sum_list (take (nat (encoder_lens ! i)) (w ! i)) = 1)"
proof -
  from attn_weights_defined [OF lens rows cols]
  obtain w where w: "forward_attn_weights batch_size T encoder_lens attn_logits = Inr w" ..
  have lw: "length w = batch_size" using attn_weights_rows(1) [OF w lens] rows by simp
  have row: "length (attn_logits ! i) = T"
    "w ! i = masked_softmax_row (attn_logits ! i) (map (\<lambda>t. int t < encoder_lens ! i) [0..<T])"
    using attn_weights_rows(2) [OF w lens] i rows by simp_all
  have lr: "length (w ! i) = T" by (simp add: row masked_row_length)
  have zero: "\<forall>t<T. encoder_lens ! i \<le> int t \<longrightarrow> w ! i ! t = 0"
    by (simp add: row masked_row_nth)
  have one: "0 < encoder_lens ! i \<and> 0 < T \<longrightarrow>
      sum_list (take (nat (encoder_lens ! i)) (w ! i)) = 1"
    using masked_row_sum [OF row(1)] by (simp add: row(2))
  from w lw lr zero one show ?thesis by blast
qed

theorem attention_weights_distribution_witness:
  "length [2 :: int] = 1 \<and> length [[0, 0, 5 :: real]] = 1
   \<and> list_all (\<lambda>row. length row = 3) [[0, 0, 5 :: real]] \<and> (0::nat) < 1
   \<and> forward_attn_weights 1 3 [2] [[0, 0, 5]] = Inr [[1 / 2, 1 / 2, 0]]
   \<and> (\<exists>w. forward_attn_weights 1 3 [2] [[0, 0, 5]] = Inr w \<and> w ! 0 ! 2 = 0 \<and>
            sum_list (take (nat ([2] ! 0)) (w ! 0)) = 1)"
proof -
  have h1: "length [2 :: int] = 1" by simp
  have h2: "length [[0, 0, 5 :: real]] = 1" by simp
  have h3: "list_all (\<lambda>row. length row = 3) [[0, 0, 5 :: real]]" by simp
  have h4: "(0::nat) < 1" by simp
  have v: "forward_attn_weights 1 3 [2] [[0, 0, 5]] = Inr [[1 / 2, 1 / 2, 0]]"
    by (simp add: forward_attn_weights_def encoder_mask_def masked_softmax_def
        masked_softmax_row_def and_then_def upt_rec)
  from attention_weights_distribution [OF h1 h2 h3 h4]
  obtain w where w: "forward_attn_weights 1 3 [2] [[0, 0, 5]] = Inr w"
    and z: "\<forall>t<3. [2] ! 0 \<le> int t \<longrightarrow> w ! 0 ! t = 0"
    and s: "0 < [2 :: int] ! 0 \<and> (0::nat) < 3 \<longrightarrow> sum_list (take (nat ([2] ! 0)) (w ! 0)) = 1"
    by blast
  from z have "w ! 0 ! 2 = 0" by simp
  moreover from s have "sum_list (take (nat ([2] ! 0)) (w ! 0)) = 1" by simp
  ultimately have "\<exists>w. forward_attn_weights 1 3 [2] [[0, 0, 5]] = Inr w \<and> w ! 0 ! 2 = 0 \<and>
            sum_list (take (nat ([2] ! 0)) (w ! 0)) = 1"
    using w by blast
  with h1 h2 h3 h4 v show ?thesis by (intro conjI)
qed

lemma embedding_lookup_zeroed:
  "embedding_lookup (map (map (\<lambda>_. 0)) table) char =
   map_sum id (map (map (\<lambda>_. 0))) (embedding_lookup table char)"
proof (cases "list_all (\<lambda>c. 0 \<le> c \<and> c < int (length table)) char")
  case True
  then have "\<forall>c\<in>set char. nat c < length table" by (auto simp: list_all_iff)
  then have "map (\<lambda>c. map (map (\<lambda>_. 0)) table ! nat c) char =
      map (map (\<lambda>_. 0)) (map (\<lambda>c. table ! nat c) char)"
    by simp
  with True show ?thesis by (simp add: embedding_lookup_def)
next
  case False
  then show ?thesis by (simp add: embedding_lookup_def)
qed

text \<open>
  C3 (the code departs from the claim). Line 114 computes the embedding and nothing
  reads it: line 120 calls the recurrent cell on \<open>char.unsqueeze(dim=1)\<close>, the index
  tensor of shape \<open>(batch_size, 1)\<close>. So the query state is what the cell returns on the
  raw indices, and setting every entry of the embedding table to zero changes neither
  the query state nor the result of \<open>forward\<close>.
\<close>

theorem query_ignores_embedding:
  "forward_query self char previous_state =
     (case embedding_lookup (embedding self) char of
        Inl e \<Rightarrow> Inl e
      | Inr embedded_char \<Rightarrow> rnn self (Long2 (map (\<lambda>c. [c]) char)) previous_state)
   \<and> forward_query (self\<lparr>embedding := map (map (\<lambda>_. 0)) (embedding self)\<rparr>) char previous_state =
       forward_query self char previous_state
   \<and> CharDecoder_forward (self\<lparr>embedding := map (map (\<lambda>_. 0)) (embedding self)\<rparr>) char
         previous_state encoder_lens encoder_hidden_states =
       CharDecoder_forward self char previous_state encoder_lens encoder_hidden_states"
proof -
  have 1: "forward_query self char previous_state =
     (case embedding_lookup (embedding self) char of
        Inl e \<Rightarrow> Inl e
      | Inr embedded_char \<Rightarrow> rnn self (Long2 (map (\<lambda>c. [c]) char)) previous_state)"
    by (simp add: forward_query_def and_then_def)
  have 2: "forward_query (self\<lparr>embedding := map (map (\<lambda>_. 0)) (embedding self)\<rparr>) char
      previous_state = forward_query self char previous_state"
    by (cases "embedding_lookup (embedding self) char")
      (simp_all add: forward_query_def and_then_def embedding_lookup_zeroed)
  have 3: "CharDecoder_forward (self\<lparr>embedding := map (map (\<lambda>_. 0)) (embedding self)\<rparr>) char
         previous_state encoder_lens encoder_hidden_states =
       CharDecoder_forward self char previous_state encoder_lens encoder_hidden_states"
    by (simp add: CharDecoder_forward_def 2 forward_context_def forward_output_def)
  from 1 2 3 show ?thesis by (intro conjI)
qed

lemma forward_context_ndim:
  "forward_context self batch_size encoder_lens encoder_hidden_states hidden_state = Inr context
   \<Longrightarrow> ndim context = 4"
  by (auto simp: forward_context_def and_then_def split: sum.splits)

lemma squeeze1_ndim: "ndim (squeeze1 t) < 4"
  by (simp add: squeeze1_def)

lemma forward_output_raises:
  assumes "ndim context = 4"
  shows "forward_output self context hidden_state final_state =
    Inl (RuntimeError ''Tensors must have same number of dimensions'')"
proof -
  have "ndim context \<noteq> ndim (squeeze1 hidden_state)"
    using assms squeeze1_ndim [of hidden_state] by simp
  then show ?thesis by (simp add: forward_output_def torch_cat1_def and_then_def)
qed

text \<open>
  C4 (the code departs from the claim). Line 129 ends in \<open>unsqueeze(dim=1)\<close> where the
  comment above it announces \<open>(batch_size, hidden_size)\<close>: \<open>context\<close> has four
  dimensions, \<open>hidden_state.squeeze(dim=1)\<close> two or three, and \<open>torch.cat\<close> of line
  132 raises. So \<open>forward\<close> returns no logits on any input, whatever the layers: on a
  batch of one sample with one encoder timestep the lines up to 129 succeed and line 132
  raises.
\<close>

theorem forward_never_returns:
  "(\<exists>e. CharDecoder_forward self char previous_state encoder_lens encoder_hidden_states = Inl e)
   \<and> forward_output self (Float4 c) hidden_state final_state =
       Inl (RuntimeError ''Tensors must have same number of dimensions'')
   \<and> forward_context
        \<lparr> embedding = [[0]], rnn = (\<lambda>x s. Inr ([[[0]]], s)), attn_weight = [0, 0],
          attn_bias = 0, concat_layer = \<lparr> in_features = 2, weight = [[0, 0]], bias = [0] \<rparr>,
          output_proj = \<lparr> in_features = 1, weight = [[0]], bias = [0] \<rparr> \<rparr>
        1 [1] [[[0]]] [[[0]]] = Inr (Float4 [[[[0]]]])
   \<and> CharDecoder_forward
        \<lparr> embedding = [[0]], rnn = (\<lambda>x s. Inr ([[[0]]], s)), attn_weight = [0, 0],
          attn_bias = 0, concat_layer = \<lparr> in_features = 2, weight = [[0, 0]], bias = [0] \<rparr>,
          output_proj = \<lparr> in_features = 1, weight = [[0]], bias = [0] \<rparr> \<rparr>
        [0] [[[0::real]]] [1] [[[0]]] = Inl (RuntimeError ''Tensors must have same number of dimensions'')"
proof -
  have 1: "\<exists>e. CharDecoder_forward self char previous_state encoder_lens
      encoder_hidden_states = Inl e"
    by (auto simp: CharDecoder_forward_def and_then_def forward_output_raises
        forward_context_ndim split: sum.splits)
  have 2: "forward_output self (Float4 c) hidden_state final_state =
       Inl (RuntimeError ''Tensors must have same number of dimensions'')"
    by (simp add: forward_output_raises)
  have 3: "forward_context
        \<lparr> embedding = [[0]], rnn = (\<lambda>x s. Inr ([[[0]]], s)), attn_weight = [0, 0],
          attn_bias = 0, concat_layer = \<lparr> in_features = 2, weight = [[0, 0]], bias = [0] \<rparr>,
          output_proj = \<lparr> in_features = 1, weight = [[0]], bias = [0] \<rparr> \<rparr>
        1 [1] [[[0]]] [[[0]]] = Inr (Float4 [[[[0]]]])"
    by (simp add: forward_context_def expand_as_def expand_dim_def traverse_def and_then_def
        inner_size_def cat_last_def attn_score_def dot_def forward_attn_weights_def
        encoder_mask_def masked_softmax_def masked_softmax_row_def bmm_def matmul_def
        transpose.simps)
  have 4: "CharDecoder_forward
        \<lparr> embedding = [[0]], rnn = (\<lambda>x s. Inr ([[[0]]], s)), attn_weight = [0, 0],
          attn_bias = 0, concat_layer = \<lparr> in_features = 2, weight = [[0, 0]], bias = [0] \<rparr>,
          output_proj = \<lparr> in_features = 1, weight = [[0]], bias = [0] \<rparr> \<rparr>
        [0] [[[0::real]]] [1] [[[0]]] = Inl (RuntimeError ''Tensors must have same number of dimensions'')"
    by (simp add: CharDecoder_forward_def forward_query_def embedding_lookup_def and_then_def
        3 [unfolded One_nat_def] forward_output_raises)
  from 1 2 3 4 show ?thesis by (intro conjI)
qed

section \<open>Properties of the encoder\<close>

subsection \<open>Sorting and restoring\<close>

lemma argsort_descending_perm: "mset (argsort_descending ls) = mset [0..<length ls]"
proof -
  have "mset (map snd (sort_key (\<lambda>p. - fst p) (zip ls [0..<length ls]))) =
        mset (map snd (zip ls [0..<length ls]))"
    by (metis mset_map mset_sort)
  moreover have "map snd (zip ls [0..<length ls]) = [0..<length ls]" by simp
  ultimately show ?thesis by (simp only: argsort_descending_def)
qed

lemma argsort_ascending_perm: "mset (argsort_ascending ps) = mset [0..<length ps]"
proof -
  have "mset (map snd (sort_key fst (zip ps [0..<length ps]))) =
        mset (map snd (zip ps [0..<length ps]))"
    by (metis mset_map mset_sort)
  moreover have "map snd (zip ps [0..<length ps]) = [0..<length ps]" by simp
  ultimately show ?thesis by (simp only: argsort_ascending_def)
qed

lemma perm_facts:
  assumes "mset p = mset [0..<n]"
  shows "length p = n" and "set p = {0..<n}" and "distinct p"
proof -
  show "length p = n" using assms by (metis length_upt mset_eq_length minus_nat.diff_0)
  show "set p = {0..<n}" using assms by (metis mset_eq_setD atLeastLessThan_upt)
  show "distinct p" using assms by (metis distinct_upt mset_eq_imp_distinct_iff)
qed

lemma sorted_lengths:
  "map ((!) ls) (argsort_descending ls) =
   map fst (sort_key (\<lambda>p. - fst p) (zip ls [0..<length ls]))"
proof -
  have "\<forall>p \<in> set (sort_key (\<lambda>p. - fst p) (zip ls [0..<length ls])). ls ! snd p = fst p"
    by (auto simp: set_zip)
  then show ?thesis by (simp add: argsort_descending_def)
qed

lemma sorted_lengths_decreasing: "sorted (rev (map ((!) ls) (argsort_descending ls)))"
proof -
  have "sorted (map (\<lambda>p. - fst p) (sort_key (\<lambda>p. - fst p) (zip ls [0..<length ls])))"
    by (rule sorted_sort_key)
  then have "sorted_wrt (\<lambda>x y. y \<le> x)
      (map fst (sort_key (\<lambda>p. - fst p) (zip ls [0..<length ls])))"
    by (simp add: sorted_wrt_map)
  then show ?thesis by (simp add: sorted_lengths sorted_wrt_rev rev_map [symmetric])
qed

lemma argsort_ascending_inverse:
  assumes p: "mset p = mset [0..<n]" and j: "j < n"
  shows "argsort_ascending p ! j < n" and "p ! (argsort_ascending p ! j) = j"
proof -
  define S where "S = sort_key fst (zip p [0..<length p])"
  have lp: "length p = n" using perm_facts(1) [OF p] .
  have "mset (map fst S) = mset (map fst (zip p [0..<length p]))"
    unfolding S_def by (metis mset_map mset_sort)
  moreover have "map fst (zip p [0..<length p]) = p" by simp
  ultimately have "mset (map fst S) = mset [0..<n]" using p by (simp only:)
  moreover have "sorted (map fst S)" unfolding S_def by (rule sorted_sort_key)
  ultimately have keys: "map fst S = [0..<n]"
    by (metis properties_for_sort sort_upt)
  have lS: "length S = n" by (simp add: S_def lp)
  have "S ! j \<in> set S" using j lS by simp
  then have "S ! j \<in> set (zip p [0..<length p])" by (simp add: S_def)
  then obtain i where i: "i < n" "S ! j = (p ! i, i)"
    by (auto simp: set_zip lp)
  have "fst (S ! j) = j" using keys j lS by (metis nth_map nth_upt add_0)
  with i have pj: "p ! i = j" by simp
  have r: "argsort_ascending p ! j = i"
    using i j lS by (simp add: argsort_ascending_def S_def [symmetric])
  show "argsort_ascending p ! j < n" using r i by simp
  show "p ! (argsort_ascending p ! j) = j" using r pj by simp
qed

lemma index_select_perm:
  assumes "mset p = mset [0..<length xs]"
  shows "index_select xs p = Inr (map ((!) xs) p)"
  using perm_facts(2) [OF assms] by (simp add: index_select_def list_all_iff)

lemma restore_sorted:
  assumes p: "mset p = mset [0..<length xs]"
  shows "index_select (map ((!) xs) p) (argsort_ascending p) = Inr xs"
proof -
  let ?r = "argsort_ascending p"
  have lp: "length p = length xs" using perm_facts(1) [OF p] .
  have r: "mset ?r = mset [0..<length (map ((!) xs) p)]"
    using argsort_ascending_perm [of p] by simp
  have lr: "length ?r = length xs" using perm_facts(1) [OF r] lp by simp
  have "map ((!) (map ((!) xs) p)) ?r = xs"
  proof (rule nth_equalityI)
    show "length (map ((!) (map ((!) xs) p)) ?r) = length xs" using lr by simp
    fix j assume "j < length (map ((!) (map ((!) xs) p)) ?r)"
    then have j: "j < length xs" using lr by simp
    from argsort_ascending_inverse [OF p j] lp lr j
    show "map ((!) (map ((!) xs) p)) ?r ! j = xs ! j" by simp
  qed
  with index_select_perm [OF r] show ?thesis by simp
qed

lemma map_select:
  assumes "set p \<subseteq> {0..<length xs}"
  shows "map f (map ((!) xs) p) = map ((!) (map f xs)) p"
  using assms by (auto simp: subset_iff)

lemma set_select:
  assumes "mset p = mset [0..<length xs]"
  shows "set (map ((!) xs) p) = set xs"
proof -
  have "set (map ((!) xs) p) = (!) xs ` {0..<length xs}"
    using perm_facts(2) [OF assms] by simp
  also have "\<dots> = set xs" by (simp add: nth_image)
  finally show ?thesis .
qed

lemma traverse_Inr:
  "(\<And>x. x \<in> set xs \<Longrightarrow> f x = Inr (g x)) \<Longrightarrow> traverse f xs = Inr (map g xs)"
  by (induction xs) (simp_all add: traverse_def and_then_def)

lemma fold_max_set: "fold max xs (a::nat) = Max (insert a (set xs))"
  using Max.set_eq_fold [of a xs] by simp

lemma pad_select:
  assumes p: "mset p = mset [0..<length ys]"
  shows "pad_packed_sequence w (map ((!) ys) p) = map ((!) (pad_packed_sequence w ys)) p"
proof -
  have "set (map length (map ((!) ys) p)) = length ` set (map ((!) ys) p)"
    by (rule set_map)
  also have "\<dots> = length ` set ys" by (simp only: set_select [OF p])
  also have "\<dots> = set (map length ys)" by (rule set_map [symmetric])
  finally have m: "fold max (map length (map ((!) ys) p)) 0 = fold max (map length ys) 0"
    by (simp only: fold_max_set)
  have sub: "set p \<subseteq> {0..<length ys}" using perm_facts(2) [OF p] by simp
  show ?thesis
    unfolding pad_packed_sequence_def m by (rule map_select [OF sub])
qed

lemma length_pad [simp]: "length (pad_packed_sequence w ys) = length ys"
  by (simp add: pad_packed_sequence_def)

lemma length_layer_major [simp]: "length (layer_major n sts) = n"
  by (simp add: layer_major_def)

lemma layer_major_nth:
  "k < n \<Longrightarrow> layer_major n sts ! k = map (\<lambda>s. s ! k) sts"
  by (simp add: layer_major_def)

lemma layer_major_restore:
  assumes p: "mset p = mset [0..<length sts]"
  shows "index_select1 (layer_major n (map ((!) sts) p)) (argsort_ascending p) =
         Inr (layer_major n sts)"
proof -
  have sub: "set p \<subseteq> {0..<length sts}" using perm_facts(2) [OF p] by simp
  have "layer_major n (map ((!) sts) p) =
        map (\<lambda>k. map ((!) (map (\<lambda>s. s ! k) sts)) p) [0..<n]"
    by (simp only: layer_major_def map_select [OF sub])
  moreover have "traverse (\<lambda>m. index_select m (argsort_ascending p))
      (map (\<lambda>k. map ((!) (map (\<lambda>s. s ! k) sts)) p) [0..<n]) =
      Inr (map (\<lambda>k. map (\<lambda>s. s ! k) sts) [0..<n])"
  proof -
    have "traverse ((\<lambda>m. index_select m (argsort_ascending p)) \<circ>
        (\<lambda>k. map ((!) (map (\<lambda>s. s ! k) sts)) p)) [0..<n] =
      Inr (map (\<lambda>k. map (\<lambda>s. s ! k) sts) [0..<n])"
    proof (rule traverse_Inr)
      fix k
      have "mset p = mset [0..<length (map (\<lambda>s. s ! k) sts)]" using p by simp
      from restore_sorted [OF this]
      show "((\<lambda>m. index_select m (argsort_ascending p)) \<circ>
          (\<lambda>k. map ((!) (map (\<lambda>s. s ! k) sts)) p)) k = Inr (map (\<lambda>s. s ! k) sts)"
        by simp
    qed
    then show ?thesis by (simp add: traverse_def)
  qed
  ultimately show ?thesis by (simp only: index_select1_def layer_major_def)
qed

lemma every_other_nth:
  "length (every_other xs) = (length xs + 1) div 2 \<and>
   (\<forall>i. 2 * i < length xs \<longrightarrow> every_other xs ! i = xs ! (2 * i))"
proof (induction xs rule: every_other.induct)
  case 1
  then show ?case by simp
next
  case (2 x)
  then show ?case by simp
next
  case (3 x y zs)
  have "every_other (x # y # zs) ! i = (x # y # zs) ! (2 * i)"
    if "2 * i < length (x # y # zs)" for i
  proof (cases i)
    case 0
    then show ?thesis by simp
  next
    case (Suc j)
    with that 3 show ?thesis by simp
  qed
  with 3 show ?case by simp
qed

lemma every_other_even:
  "every_other (map g [0..<2 * n]) = map (\<lambda>l. g (2 * l)) [0..<n]"
proof (rule nth_equalityI)
  show "length (every_other (map g [0..<2 * n])) = length (map (\<lambda>l. g (2 * l)) [0..<n])"
    using every_other_nth [of "map g [0..<2 * n]"] by simp
  fix i assume "i < length (every_other (map g [0..<2 * n]))"
  then have i: "i < n" using every_other_nth [of "map g [0..<2 * n]"] by simp
  then show "every_other (map g [0..<2 * n]) ! i = map (\<lambda>l. g (2 * l)) [0..<n] ! i"
    using every_other_nth [of "map g [0..<2 * n]"] by simp
qed

lemma every_other_odd:
  "every_other (tl (map g [0..<2 * n])) = map (\<lambda>l. g (2 * l + 1)) [0..<n]"
proof (rule nth_equalityI)
  define ys where "ys = map g [Suc 0..<2 * n]"
  have t: "tl (map g [0..<2 * n]) = ys" by (simp only: ys_def map_tl [symmetric] tl_upt)
  have l: "length ys = 2 * n - 1" by (simp add: ys_def)
  have "length (every_other ys) = (length ys + 1) div 2"
    using every_other_nth [of ys] by blast
  then have len: "length (every_other ys) = n" unfolding l by presburger
  then show "length (every_other (tl (map g [0..<2 * n]))) =
      length (map (\<lambda>l. g (2 * l + 1)) [0..<n])"
    by (simp add: t)
  fix i assume "i < length (every_other (tl (map g [0..<2 * n])))"
  then have i: "i < n" using len by (simp add: t)
  then have i2: "2 * i < length ys" unfolding l by presburger
  then have "every_other ys ! i = ys ! (2 * i)"
    using every_other_nth [of ys] by blast
  also have "\<dots> = g (Suc 0 + 2 * i)"
    unfolding ys_def using i2 l by (simp only: nth_map nth_upt length_map length_upt ys_def)
  finally show "every_other (tl (map g [0..<2 * n])) ! i = map (\<lambda>l. g (2 * l + 1)) [0..<n] ! i"
    using i by (simp add: t)
qed

lemma map2_same: "map2 f (map g xs) (map h xs) = map (\<lambda>x. f (g x) (h x)) xs"
  by (induction xs) simp_all

lemma cat_pairs_layer_major:
  "cat_pairs (layer_major (2 * n) sts) =
   Inr (map (\<lambda>l. map (\<lambda>s. s ! (2 * l) @ s ! (2 * l + 1)) sts) [0..<n])"
proof -
  have e: "every_other (layer_major (2 * n) sts) = map (\<lambda>l. map (\<lambda>s. s ! (2 * l)) sts) [0..<n]"
    unfolding layer_major_def by (rule every_other_even)
  have o: "every_other (tl (layer_major (2 * n) sts)) =
      map (\<lambda>l. map (\<lambda>s. s ! (2 * l + 1)) sts) [0..<n]"
    unfolding layer_major_def by (rule every_other_odd)
  show ?thesis
    unfolding cat_pairs_def e o by (simp add: cat_last_def map2_same comp_def)
qed

subsection \<open>Forward, stage by stage\<close>

lemma zip_select:
  assumes "length xs = length ys" "set p \<subseteq> {0..<length xs}"
  shows "zip (map ((!) xs) p) (map ((!) ys) p) = map ((!) (zip xs ys)) p"
  using assms by (auto simp: zip_map_map subset_iff intro!: nth_equalityI)

lemma stage_sort:
  assumes "length frame_lens = length frames"
  shows "sort_batch_by_length frames frame_lens =
    Inr (map ((!) frames) (argsort_descending frame_lens),
         map ((!) frame_lens) (argsort_descending frame_lens),
         argsort_ascending (argsort_descending frame_lens),
         argsort_descending frame_lens)"
proof -
  have "mset (argsort_descending frame_lens) = mset [0..<length frames]"
    using argsort_descending_perm [of frame_lens] assms by simp
  from index_select_perm [OF this] show ?thesis
    by (simp add: sort_batch_by_length_def and_then_def Let_def)
qed

lemma stage_pack:
  assumes wf: "well_formed_batch frames frame_lens"
    and p: "mset p = mset [0..<length frames]"
    and dec: "sorted (rev (map ((!) frame_lens) p))"
  shows "pack_padded_sequence (map ((!) frames) p) (map ((!) frame_lens) p) =
    Inr (map valid_frames (map ((!) (zip frames frame_lens)) p))"
proof -
  from wf have ne: "frames \<noteq> []" and len: "length frame_lens = length frames"
    and each: "\<And>i. i < length frames \<Longrightarrow>
      0 < frame_lens ! i \<and> frame_lens ! i \<le> int (length (frames ! i))"
    by (auto simp: well_formed_batch_def list_all2_conv_all_nth)
  have lp: "length p = length frames" and sp: "set p = {0..<length frames}"
    using perm_facts [OF p] by simp_all
  have 1: "map ((!) frames) p \<noteq> []" using ne lp by auto
  have 4: "list_all (\<lambda>l. 0 < l) (map ((!) frame_lens) p)"
    using each sp by (auto simp: list_all_iff)
  have inb: "\<And>i. i < length p \<Longrightarrow> p ! i < length frames"
    using sp by (metis nth_mem atLeastLessThan_iff)
  have 5: "list_all2 (\<lambda>l x. l \<le> int (length x)) (map ((!) frame_lens) p) (map ((!) frames) p)"
    using each inb by (simp add: list_all2_conv_all_nth)
  have "map2 (\<lambda>l x. take (nat l) x) (map ((!) frame_lens) p) (map ((!) frames) p) =
        map (\<lambda>i. take (nat (frame_lens ! i)) (frames ! i)) p"
    by (rule map2_same)
  also have "\<dots> = map (\<lambda>i. valid_frames (zip frames frame_lens ! i)) p"
    using sp len by (intro map_cong) (simp_all add: valid_frames_def)
  finally have 6: "map2 (\<lambda>l x. take (nat l) x) (map ((!) frame_lens) p) (map ((!) frames) p) =
      map valid_frames (map ((!) (zip frames frame_lens)) p)"
    by (simp add: comp_def)
  from 1 4 5 dec show ?thesis
    by (simp only: pack_padded_sequence_def 6 length_map if_False if_True not_not simp_thms)
qed

lemma stage_rnn:
  assumes sub: "set p \<subseteq> {0..<length samples}"
  shows "run_rnn self (map valid_frames (map ((!) samples) p)) =
    (map ((!) (map (\<lambda>s. fst (encoder_rnn self (valid_frames s))) samples)) p,
     rnn_state (rnn_type self)
       (layer_major (num_layers self * num_directions self)
          (map ((!) (map (\<lambda>s. fst (snd (encoder_rnn self (valid_frames s)))) samples)) p))
       (layer_major (num_layers self * num_directions self)
          (map ((!) (map (\<lambda>s. snd (snd (encoder_rnn self (valid_frames s)))) samples)) p)))"
proof -
  have sel: "\<And>f. map f (map ((!) samples) p) = map ((!) (map f samples)) p"
    by (rule map_select [OF sub])
  have "map (\<lambda>(out, h, c). out) (map (encoder_rnn self) (map valid_frames (map ((!) samples) p)))
      = map (\<lambda>s. fst (encoder_rnn self (valid_frames s))) (map ((!) samples) p)"
    by (simp add: case_prod_beta)
  moreover have
    "map (\<lambda>(out, h, c). h) (map (encoder_rnn self) (map valid_frames (map ((!) samples) p)))
      = map (\<lambda>s. fst (snd (encoder_rnn self (valid_frames s)))) (map ((!) samples) p)"
    by (simp add: case_prod_beta)
  moreover have
    "map (\<lambda>(out, h, c). c) (map (encoder_rnn self) (map valid_frames (map ((!) samples) p)))
      = map (\<lambda>s. snd (snd (encoder_rnn self (valid_frames s)))) (map ((!) samples) p)"
    by (simp add: case_prod_beta)
  ultimately show ?thesis
    by (simp only: run_rnn_def Let_def sel)
qed

lemma merged_layers:
  "(if bidirectional self
    then map (\<lambda>l. map (\<lambda>s. s ! (2 * l) @ s ! (2 * l + 1)) sts) [0..<num_layers self]
    else layer_major (num_layers self) sts) =
   layer_major (num_layers self) (map (merge_directions self) sts)"
  by (simp add: layer_major_def merge_directions_def)

lemma stage_directions:
  "(if bidirectional self
    then cat_directions (rnn_state t (layer_major (num_layers self * num_directions self) a)
                           (layer_major (num_layers self * num_directions self) b))
    else Inr (rnn_state t (layer_major (num_layers self * num_directions self) a)
                (layer_major (num_layers self * num_directions self) b))) =
   Inr (rnn_state t (layer_major (num_layers self) (map (merge_directions self) a))
          (layer_major (num_layers self) (map (merge_directions self) b)))"
proof (cases "bidirectional self")
  case True
  then have n: "num_layers self * num_directions self = 2 * num_layers self"
    by (simp add: num_directions_def)
  show ?thesis
    using True merged_layers [of self a] merged_layers [of self b]
    by (simp add: n cat_directions_def rnn_state_def cat_pairs_layer_major and_then_def)
next
  case False
  then have n: "num_layers self * num_directions self = num_layers self"
    by (simp add: num_directions_def)
  show ?thesis
    using False merged_layers [of self a] merged_layers [of self b]
    by (simp add: n)
qed

lemma stage_restore_state:
  assumes p: "mset p = mset [0..<length a]" and l: "length b = length a"
  shows "state_index_select
      (rnn_state t (layer_major n (map ((!) a) p)) (layer_major n (map ((!) b) p)))
      (argsort_ascending p) =
    Inr (rnn_state t (layer_major n a) (layer_major n b))"
proof -
  have pb: "mset p = mset [0..<length b]" using p l by simp
  show ?thesis
    by (simp add: state_index_select_def rnn_state_def and_then_def
        layer_major_restore [OF p] layer_major_restore [OF pb])
qed

text \<open>
  On a well-formed batch \<open>forward\<close> returns, and what it returns is the encoding of the
  samples one by one, in their original order.
\<close>

lemma forward_encodes_samples:
  assumes wf: "well_formed_batch frames frame_lens"
  shows "VideoEncoder_forward self frames frame_lens =
    Inr (encode_samples self (zip frames frame_lens))"
proof -
  define p where "p = argsort_descending frame_lens"
  define S where "S = zip frames frame_lens"
  from wf have len: "length frame_lens = length frames"
    by (simp add: well_formed_batch_def)
  have lS: "length S = length frames" by (simp add: S_def len)
  have p: "mset p = mset [0..<length frames]"
    using argsort_descending_perm [of frame_lens] len by (simp add: p_def)
  then have pS: "mset p = mset [0..<length S]" by (simp add: lS)
  have sub: "set p \<subseteq> {0..<length S}" using perm_facts(2) [OF pS] by simp
  have dec: "sorted (rev (map ((!) frame_lens) p))"
    unfolding p_def by (rule sorted_lengths_decreasing)
  define Os where "Os = map (\<lambda>s. fst (encoder_rnn self (valid_frames s))) S"
  define Hs where "Hs = map (\<lambda>s. fst (snd (encoder_rnn self (valid_frames s)))) S"
  define Cs where "Cs = map (\<lambda>s. snd (snd (encoder_rnn self (valid_frames s)))) S"
  have pOs: "mset p = mset [0..<length Os]" and pH: "mset p = mset [0..<length Hs]"
    and lC: "length Cs = length Hs"
    using pS by (simp_all add: Os_def Hs_def Cs_def)
  have pmH: "mset p = mset [0..<length (map (merge_directions self) Hs)]"
    using pH by simp
  have subH: "set p \<subseteq> {0..<length Hs}" and subC: "set p \<subseteq> {0..<length Cs}"
    using sub by (simp_all add: Hs_def Cs_def)
  have sort: "sort_batch_by_length frames frame_lens =
      Inr (map ((!) frames) p, map ((!) frame_lens) p, argsort_ascending p, p)"
    unfolding p_def by (rule stage_sort [OF len])
  have pack: "pack_padded_sequence (map ((!) frames) p) (map ((!) frame_lens) p) =
      Inr (map valid_frames (map ((!) S) p))"
    unfolding S_def by (rule stage_pack [OF wf p dec])
  have rnn: "run_rnn self (map valid_frames (map ((!) S) p)) =
      (map ((!) Os) p,
       rnn_state (rnn_type self)
         (layer_major (num_layers self * num_directions self) (map ((!) Hs) p))
         (layer_major (num_layers self * num_directions self) (map ((!) Cs) p)))"
    unfolding Os_def Hs_def Cs_def by (rule stage_rnn [OF sub])
  have dirs: "(if bidirectional self
      then cat_directions (snd (run_rnn self (map valid_frames (map ((!) S) p))))
      else Inr (snd (run_rnn self (map valid_frames (map ((!) S) p))))) =
      Inr (rnn_state (rnn_type self)
            (layer_major (num_layers self) (map ((!) (map (merge_directions self) Hs)) p))
            (layer_major (num_layers self) (map ((!) (map (merge_directions self) Cs)) p)))"
    unfolding rnn snd_conv stage_directions
    by (simp only: map_select [OF subH] map_select [OF subC])
  have hid: "index_select
      (pad_packed_sequence (num_directions self * hidden_size self)
         (fst (run_rnn self (map valid_frames (map ((!) S) p)))))
      (argsort_ascending p) =
      Inr (pad_packed_sequence (num_directions self * hidden_size self) Os)"
  proof -
    have pp: "mset p =
        mset [0..<length (pad_packed_sequence (num_directions self * hidden_size self) Os)]"
      using pOs by simp
    show ?thesis
      unfolding rnn fst_conv pad_select [OF pOs] by (rule restore_sorted [OF pp])
  qed
  have st: "state_index_select
      (rnn_state (rnn_type self)
            (layer_major (num_layers self) (map ((!) (map (merge_directions self) Hs)) p))
            (layer_major (num_layers self) (map ((!) (map (merge_directions self) Cs)) p)))
      (argsort_ascending p) =
      Inr (rnn_state (rnn_type self)
            (layer_major (num_layers self) (map (merge_directions self) Hs))
            (layer_major (num_layers self) (map (merge_directions self) Cs)))"
    by (rule stage_restore_state [OF pmH]) (simp add: lC)
  have enc: "encode_samples self S =
      (pad_packed_sequence (num_directions self * hidden_size self) Os,
       rnn_state (rnn_type self)
            (layer_major (num_layers self) (map (merge_directions self) Hs))
            (layer_major (num_layers self) (map (merge_directions self) Cs)))"
    by (simp add: encode_samples_def Os_def Hs_def Cs_def Let_def case_prod_beta comp_def)
  show ?thesis
    unfolding VideoEncoder_forward_def sort and_then_def sum.case prod.case pack dirs hid st
      S_def [symmetric] enc ..
qed

subsection \<open>Order of the batch\<close>

lemma encode_samples_parts:
  "encode_samples self samples =
    (pad_packed_sequence (num_directions self * hidden_size self)
       (map (\<lambda>s. fst (encoder_rnn self (valid_frames s))) samples),
     rnn_state (rnn_type self)
       (layer_major (num_layers self)
          (map (\<lambda>s. merge_directions self (fst (snd (encoder_rnn self (valid_frames s)))))
             samples))
       (layer_major (num_layers self)
          (map (\<lambda>s. merge_directions self (snd (snd (encoder_rnn self (valid_frames s)))))
             samples)))"
  by (simp add: encode_samples_def Let_def case_prod_beta comp_def)

lemma well_formed_select:
  assumes wf: "well_formed_batch frames frame_lens"
    and p: "mset p = mset [0..<length frames]"
  shows "well_formed_batch (map ((!) frames) p) (map ((!) frame_lens) p)"
proof -
  from wf have ne: "frames \<noteq> []" and len: "length frame_lens = length frames"
    and each: "\<And>i. i < length frames \<Longrightarrow>
      0 < frame_lens ! i \<and> frame_lens ! i \<le> int (length (frames ! i))"
    by (auto simp: well_formed_batch_def list_all2_conv_all_nth)
  have lp: "length p = length frames" and sp: "set p = {0..<length frames}"
    using perm_facts [OF p] by simp_all
  have inb: "\<And>i. i < length p \<Longrightarrow> p ! i < length frames"
    using sp by (metis nth_mem atLeastLessThan_iff)
  have "map ((!) frames) p \<noteq> []" using ne lp by auto
  moreover have "list_all2 (\<lambda>l x. 0 < l \<and> l \<le> int (length x))
      (map ((!) frame_lens) p) (map ((!) frames) p)"
    using each inb by (simp add: list_all2_conv_all_nth)
  ultimately show ?thesis by (simp add: well_formed_batch_def)
qed

text \<open>
  C2. For a well-formed batch and any permutation \<open>p\<close> of its samples, \<open>forward\<close>
  returns on the batch and on the permuted batch (frames and lengths permuted together),
  and selecting the outputs of the permuted batch by the inverse permutation gives the
  hidden states and the final state of the unpermuted batch.
\<close>

theorem encoder_order_invariant:
  assumes wf: "well_formed_batch frames frame_lens"
    and p: "mset p = mset [0..<length frames]"
  shows "\<exists>hs fs hs' fs'.
    VideoEncoder_forward self frames frame_lens = Inr (hs, fs) \<and>
    VideoEncoder_forward self (map ((!) frames) p) (map ((!) frame_lens) p) = Inr (hs', fs') \<and>
    index_select hs' (argsort_ascending p) = Inr hs \<and>
    state_index_select fs' (argsort_ascending p) = Inr fs"
proof -
  define S where "S = zip frames frame_lens"
  define w where "w = num_directions self * hidden_size self"
  define Os where "Os = map (\<lambda>s. fst (encoder_rnn self (valid_frames s))) S"
  define Hs where
    "Hs = map (\<lambda>s. merge_directions self (fst (snd (encoder_rnn self (valid_frames s))))) S"
  define Cs where
    "Cs = map (\<lambda>s. merge_directions self (snd (snd (encoder_rnn self (valid_frames s))))) S"
  from wf have len: "length frame_lens = length frames"
    by (simp add: well_formed_batch_def)
  have lS: "length S = length frames" by (simp add: S_def len)
  have sub: "set p \<subseteq> {0..<length frames}" using perm_facts(2) [OF p] by simp
  then have subS: "set p \<subseteq> {0..<length S}" by (simp add: lS)
  have pOs: "mset p = mset [0..<length Os]" and pHs: "mset p = mset [0..<length Hs]"
    and lCs: "length Cs = length Hs"
    using p by (simp_all add: Os_def Hs_def Cs_def lS)
  have plain: "VideoEncoder_forward self frames frame_lens =
      Inr (pad_packed_sequence w Os,
           rnn_state (rnn_type self) (layer_major (num_layers self) Hs)
             (layer_major (num_layers self) Cs))"
    unfolding forward_encodes_samples [OF wf] encode_samples_parts
    by (simp only: S_def w_def Os_def Hs_def Cs_def)
  have zp: "zip (map ((!) frames) p) (map ((!) frame_lens) p) = map ((!) S) p"
    unfolding S_def using len sub by (intro zip_select) simp_all
  have permuted: "VideoEncoder_forward self (map ((!) frames) p) (map ((!) frame_lens) p) =
      Inr (map ((!) (pad_packed_sequence w Os)) p,
           rnn_state (rnn_type self) (layer_major (num_layers self) (map ((!) Hs) p))
             (layer_major (num_layers self) (map ((!) Cs) p)))"
    unfolding forward_encodes_samples [OF well_formed_select [OF wf p]] zp encode_samples_parts
    by (simp only: map_select [OF subS] w_def [symmetric] Os_def [symmetric]
        Hs_def [symmetric] Cs_def [symmetric] pad_select [OF pOs])
  have pp: "mset p = mset [0..<length (pad_packed_sequence w Os)]" using pOs by simp
  have restored: "index_select (map ((!) (pad_packed_sequence w Os)) p) (argsort_ascending p) =
      Inr (pad_packed_sequence w Os)"
    by (rule restore_sorted [OF pp])
  have restored_state: "state_index_select
      (rnn_state (rnn_type self) (layer_major (num_layers self) (map ((!) Hs) p))
         (layer_major (num_layers self) (map ((!) Cs) p)))
      (argsort_ascending p) =
      Inr (rnn_state (rnn_type self) (layer_major (num_layers self) Hs)
             (layer_major (num_layers self) Cs))"
    by (rule stage_restore_state [OF pHs lCs])
  from plain permuted restored restored_state show ?thesis by blast
qed

theorem encoder_order_invariant_witness:
  "well_formed_batch [[1, 2, 0], [3, 4, 5 :: real]] [2, 3]
   \<and> mset [1, 0 :: nat] = mset [0..<length [[1, 2, 0], [3, 4, 5 :: real]]]
   \<and> (\<exists>hs fs hs' fs'.
        VideoEncoder_forward
          \<lparr> hidden_size = 1, rnn_type = LSTM, num_layers = 1, bidirectional = False,
            encoder_rnn = (\<lambda>seq. (map (\<lambda>f. [f]) seq, [[last seq]], [[hd seq]])) \<rparr>
          [[1, 2, 0], [3, 4, 5]] [2, 3] = Inr (hs, fs) \<and>
        VideoEncoder_forward
          \<lparr> hidden_size = 1, rnn_type = LSTM, num_layers = 1, bidirectional = False,
            encoder_rnn = (\<lambda>seq. (map (\<lambda>f. [f]) seq, [[last seq]], [[hd seq]])) \<rparr>
          (map ((!) [[1, 2, 0], [3, 4, 5]]) [1, 0]) (map ((!) [2, 3]) [1, 0]) = Inr (hs', fs') \<and>
        index_select hs' (argsort_ascending [1, 0]) = Inr hs \<and>
        state_index_select fs' (argsort_ascending [1, 0]) = Inr fs)"
proof -
  have h1: "well_formed_batch [[1, 2, 0], [3, 4, 5 :: real]] [2, 3]"
    by (simp add: well_formed_batch_def)
  have "[0..<length [[1, 2, 0], [3, 4, 5 :: real]]] = [0, 1]"
    by (simp add: upt_rec)
  moreover have "mset [1, 0 :: nat] = mset [0, 1]"
    by (simp only: mset.simps add_mset_commute)
  ultimately have h2: "mset [1, 0 :: nat] = mset [0..<length [[1, 2, 0], [3, 4, 5 :: real]]]"
    by (simp only:)
  from h1 h2 encoder_order_invariant [OF h1 h2] show ?thesis by (intro conjI)
qed

subsection \<open>Shapes and the merged final state\<close>

lemma sample_valid:
  assumes wf: "well_formed_batch frames frame_lens" and i: "i < length frames"
  shows "valid_frames (zip frames frame_lens ! i) \<noteq> []"
    and "length (valid_frames (zip frames frame_lens ! i)) = nat (frame_lens ! i)"
proof -
  from wf i have len: "length frame_lens = length frames"
    and each: "0 < frame_lens ! i \<and> frame_lens ! i \<le> int (length (frames ! i))"
    by (auto simp: well_formed_batch_def list_all2_conv_all_nth)
  have v: "valid_frames (zip frames frame_lens ! i) = take (nat (frame_lens ! i)) (frames ! i)"
    using i len by (simp add: valid_frames_def)
  from each have "0 < nat (frame_lens ! i)" and "nat (frame_lens ! i) \<le> length (frames ! i)"
    by linarith+
  then show "length (valid_frames (zip frames frame_lens ! i)) = nat (frame_lens ! i)"
    and "valid_frames (zip frames frame_lens ! i) \<noteq> []"
    unfolding v by auto
qed

lemma longest_length:
  assumes "ls \<noteq> []" and "list_all (\<lambda>l. 0 < l) ls"
  shows "fold max (map nat ls) 0 = nat (Max (set ls))"
proof -
  have ne: "set ls \<noteq> {}" and fin: "finite (set ls)" using assms(1) by simp_all
  have "fold max (map nat ls) 0 = Max (insert 0 (nat ` set ls))"
    by (simp add: fold_max_set)
  also have "\<dots> = max 0 (Max (nat ` set ls))"
    using ne by (simp add: Max_insert)
  also have "\<dots> = Max (nat ` set ls)" by simp
  also have "\<dots> = nat (Max (set ls))"
    by (rule mono_Max_commute [symmetric]) (use assms(1) in \<open>auto simp: mono_def\<close>)
  finally show ?thesis .
qed

lemma pad_shape:
  assumes rows: "\<And>i. i < length ys \<Longrightarrow> list_all (\<lambda>v. length v = w) (ys ! i)"
  shows "has_shape3 (pad_packed_sequence w ys) (length ys) (fold max (map length ys) 0) w"
proof -
  let ?m = "fold max (map length ys) 0"
  have le: "length (ys ! i) \<le> ?m" if "i < length ys" for i
  proof -
    have "length (ys ! i) \<in> insert 0 (set (map length ys))" using that by simp
    then show ?thesis unfolding fold_max_set by (intro Max_ge) simp_all
  qed
  have "length (pad_packed_sequence w ys ! i) = ?m \<and>
        list_all (\<lambda>v. length v = w) (pad_packed_sequence w ys ! i)"
    if "i < length ys" for i
    using le [OF that] rows [OF that] that
    by (auto simp: pad_packed_sequence_def list_all_iff)
  then show ?thesis by (simp add: has_shape3_def list_all_length)
qed

lemma merged_shape:
  assumes sts: "\<And>i. i < length sts \<Longrightarrow>
      length (sts ! i) = 2 * n \<and> list_all (\<lambda>v. length v = h) (sts ! i)"
  shows "has_shape3 (map (\<lambda>l. map (\<lambda>s. s ! (2 * l) @ s ! (2 * l + 1)) sts) [0..<n])
           n (length sts) (2 * h)"
proof -
  have "length (sts ! i ! (2 * l) @ sts ! i ! (2 * l + 1)) = 2 * h"
    if "i < length sts" "l < n" for i l
  proof -
    from sts [OF that(1)] that(2)
    have "length (sts ! i ! (2 * l)) = h" and "length (sts ! i ! (2 * l + 1)) = h"
      by (simp_all add: list_all_length)
    then show ?thesis by simp
  qed
  then show ?thesis by (simp add: has_shape3_def list_all_length)
qed

text \<open>
  C6. With \<open>bidirectional\<close> set, on a well-formed batch and with a recurrent cell that
  gives vectors of the sizes of a bidirectional cell, \<open>forward\<close> returns hidden states of
  shape \<open>(batch_size, longest length, 2 * hidden_size)\<close> and a final state whose tensors
  (two for an LSTM) have shape \<open>(num_layers, batch_size, 2 * hidden_size)\<close>: the entry
  of layer \<open>l\<close> and of a sample is the final state of the forward direction of that
  layer followed by that of its backward direction.
\<close>

theorem bidirectional_final_state:
  assumes bi: "bidirectional self"
    and wf: "well_formed_batch frames frame_lens"
    and cell: "\<forall>seq. seq \<noteq> [] \<longrightarrow> rnn_shapes self seq"
  shows "\<exists>hs fs.
    VideoEncoder_forward self frames frame_lens = Inr (hs, fs) \<and>
    has_shape3 hs (length frames) (nat (Max (set frame_lens))) (2 * hidden_size self) \<and>
    state_has_shape fs (num_layers self) (length frames) (2 * hidden_size self) \<and>
    fs = rnn_state (rnn_type self)
           (map (\<lambda>l. map (\<lambda>s. fst (snd (encoder_rnn self (valid_frames s))) ! (2 * l) @
                              fst (snd (encoder_rnn self (valid_frames s))) ! (2 * l + 1))
                        (zip frames frame_lens)) [0..<num_layers self])
           (map (\<lambda>l. map (\<lambda>s. snd (snd (encoder_rnn self (valid_frames s))) ! (2 * l) @
                              snd (snd (encoder_rnn self (valid_frames s))) ! (2 * l + 1))
                        (zip frames frame_lens)) [0..<num_layers self])"
proof -
  define S where "S = zip frames frame_lens"
  define Os where "Os = map (\<lambda>s. fst (encoder_rnn self (valid_frames s))) S"
  define Hs where "Hs = map (\<lambda>s. fst (snd (encoder_rnn self (valid_frames s)))) S"
  define Cs where "Cs = map (\<lambda>s. snd (snd (encoder_rnn self (valid_frames s)))) S"
  define A where "A = map (\<lambda>l. map (\<lambda>s. s ! (2 * l) @ s ! (2 * l + 1)) Hs) [0..<num_layers self]"
  define B where "B = map (\<lambda>l. map (\<lambda>s. s ! (2 * l) @ s ! (2 * l + 1)) Cs) [0..<num_layers self]"
  from wf have ne: "frames \<noteq> []" and len: "length frame_lens = length frames"
    and each: "\<And>i. i < length frames \<Longrightarrow> 0 < frame_lens ! i"
    by (auto simp: well_formed_batch_def list_all2_conv_all_nth)
  have lS: "length S = length frames" by (simp add: S_def len)
  have w: "num_directions self * hidden_size self = 2 * hidden_size self"
    and d: "num_layers self * num_directions self = 2 * num_layers self"
    using bi by (simp_all add: num_directions_def)
  have shapes: "rnn_shapes self (valid_frames (S ! i))" if "i < length frames" for i
    using cell sample_valid(1) [OF wf that] by (simp add: S_def)
  have mA: "layer_major (num_layers self) (map (merge_directions self) Hs) = A"
    using merged_layers [of self Hs] bi by (simp add: A_def)
  have mB: "layer_major (num_layers self) (map (merge_directions self) Cs) = B"
    using merged_layers [of self Cs] bi by (simp add: B_def)
  have run: "VideoEncoder_forward self frames frame_lens =
      Inr (pad_packed_sequence (2 * hidden_size self) Os, rnn_state (rnn_type self) A B)"
    unfolding forward_encodes_samples [OF wf] encode_samples_parts S_def [symmetric]
      mA [symmetric] mB [symmetric] w
    by (simp add: Os_def Hs_def Cs_def comp_def)
  have lenOs: "map length Os = map nat frame_lens"
  proof (rule nth_equalityI)
    show "length (map length Os) = length (map nat frame_lens)"
      by (simp add: Os_def lS len)
    fix i assume "i < length (map length Os)"
    then have i: "i < length frames" by (simp add: Os_def lS)
    from shapes [OF i] sample_valid(2) [OF wf i] i
    show "map length Os ! i = map nat frame_lens ! i"
      by (simp add: Os_def lS len rnn_shapes_def S_def case_prod_beta)
  qed
  have pos: "list_all (\<lambda>l. 0 < l) frame_lens"
    using each len by (simp add: list_all_length)
  have lne: "frame_lens \<noteq> []" using ne len by auto
  have longest: "fold max (map length Os) 0 = nat (Max (set frame_lens))"
    unfolding lenOs by (rule longest_length [OF lne pos])
  have rowsO: "list_all (\<lambda>v. length v = 2 * hidden_size self) (Os ! i)" if "i < length Os" for i
  proof -
    from that have i: "i < length frames" by (simp add: Os_def lS)
    from shapes [OF i] i show ?thesis
      by (simp add: Os_def lS rnn_shapes_def case_prod_beta w)
  qed
  have hs: "has_shape3 (pad_packed_sequence (2 * hidden_size self) Os) (length frames)
      (nat (Max (set frame_lens))) (2 * hidden_size self)"
    using pad_shape [of Os "2 * hidden_size self", OF rowsO]
    by (simp add: longest) (simp add: Os_def lS)
  have rowsH: "length (Hs ! i) = 2 * num_layers self \<and>
      list_all (\<lambda>v. length v = hidden_size self) (Hs ! i)" if "i < length Hs" for i
  proof -
    from that have i: "i < length frames" by (simp add: Hs_def lS)
    from shapes [OF i] i show ?thesis
      by (simp add: Hs_def lS rnn_shapes_def case_prod_beta d)
  qed
  have rowsC: "length (Cs ! i) = 2 * num_layers self \<and>
      list_all (\<lambda>v. length v = hidden_size self) (Cs ! i)" if "i < length Cs" for i
  proof -
    from that have i: "i < length frames" by (simp add: Cs_def lS)
    from shapes [OF i] i show ?thesis
      by (simp add: Cs_def lS rnn_shapes_def case_prod_beta d)
  qed
  have sA: "has_shape3 A (num_layers self) (length frames) (2 * hidden_size self)"
    using merged_shape [of Hs "num_layers self" "hidden_size self", OF rowsH]
    by (simp add: A_def) (simp add: Hs_def lS)
  have sB: "has_shape3 B (num_layers self) (length frames) (2 * hidden_size self)"
    using merged_shape [of Cs "num_layers self" "hidden_size self", OF rowsC]
    by (simp add: B_def) (simp add: Cs_def lS)
  have st: "state_has_shape (rnn_state (rnn_type self) A B) (num_layers self) (length frames)
      (2 * hidden_size self)"
    using sA sB by (simp add: rnn_state_def)
  have content: "rnn_state (rnn_type self) A B =
      rnn_state (rnn_type self)
           (map (\<lambda>l. map (\<lambda>s. fst (snd (encoder_rnn self (valid_frames s))) ! (2 * l) @
                              fst (snd (encoder_rnn self (valid_frames s))) ! (2 * l + 1))
                        (zip frames frame_lens)) [0..<num_layers self])
           (map (\<lambda>l. map (\<lambda>s. snd (snd (encoder_rnn self (valid_frames s))) ! (2 * l) @
                              snd (snd (encoder_rnn self (valid_frames s))) ! (2 * l + 1))
                        (zip frames frame_lens)) [0..<num_layers self])"
    by (simp add: A_def B_def Hs_def Cs_def S_def comp_def)
  from run hs st content show ?thesis by metis
qed

theorem bidirectional_final_state_witness:
  "bidirectional
     \<lparr> hidden_size = 8, rnn_type = LSTM, num_layers = 1, bidirectional = True,
       encoder_rnn = (\<lambda>seq :: real list list.
         (map (\<lambda>f. replicate 16 0) seq, replicate 2 (replicate 8 0),
          replicate 2 (replicate 8 0))) \<rparr>
   \<and> well_formed_batch (replicate 2 (replicate 5 (replicate 4 (0::real)))) [5, 3]
   \<and> (\<forall>seq. rnn_shapes
         \<lparr> hidden_size = 8, rnn_type = LSTM, num_layers = 1, bidirectional = True,
           encoder_rnn = (\<lambda>seq :: real list list.
             (map (\<lambda>f. replicate 16 0) seq, replicate 2 (replicate 8 0),
              replicate 2 (replicate 8 0))) \<rparr> seq)
   \<and> (\<exists>hs fs.
         VideoEncoder_forward
           \<lparr> hidden_size = 8, rnn_type = LSTM, num_layers = 1, bidirectional = True,
             encoder_rnn = (\<lambda>seq :: real list list.
               (map (\<lambda>f. replicate 16 0) seq, replicate 2 (replicate 8 0),
                replicate 2 (replicate 8 0))) \<rparr>
           (replicate 2 (replicate 5 (replicate 4 0))) [5, 3] = Inr (hs, fs) \<and>
         has_shape3 hs 2 5 16 \<and> state_has_shape fs 1 2 16)"
proof -
  let ?enc = "\<lparr> hidden_size = 8, rnn_type = LSTM, num_layers = 1, bidirectional = True,
       encoder_rnn = (\<lambda>seq :: real list list.
         (map (\<lambda>f. replicate 16 0) seq, replicate 2 (replicate 8 (0::real)),
          replicate 2 (replicate 8 (0::real)))) \<rparr>"
  let ?frames = "replicate 2 (replicate 5 (replicate 4 (0::real)))"
  have h1: "bidirectional ?enc" by simp
  have h2: "well_formed_batch ?frames [5, 3]"
    by (simp add: well_formed_batch_def numeral_2_eq_2)
  have h3: "\<forall>seq. rnn_shapes ?enc seq"
    by (simp add: rnn_shapes_def num_directions_def list_all_iff)
  then have h3': "\<forall>seq. seq \<noteq> [] \<longrightarrow> rnn_shapes ?enc seq" by simp
  from bidirectional_final_state [OF h1 h2 h3']
  obtain hs fs where r: "VideoEncoder_forward ?enc ?frames [5, 3] = Inr (hs, fs)"
    and s1: "has_shape3 hs (length ?frames) (nat (Max (set [5, 3]))) (2 * hidden_size ?enc)"
    and s2: "state_has_shape fs (num_layers ?enc) (length ?frames) (2 * hidden_size ?enc)"
    by blast
  from s1 have "has_shape3 hs 2 5 16" by simp
  moreover from s2 have "state_has_shape fs 1 2 16" by simp
  ultimately have "\<exists>hs fs. VideoEncoder_forward ?enc ?frames [5, 3] = Inr (hs, fs) \<and>
      has_shape3 hs 2 5 16 \<and> state_has_shape fs 1 2 16"
    using r by blast
  with h1 h2 h3 show ?thesis by (intro conjI)
qed

end
